theory Spec2Isabelle
  imports Complex_Main "HOL-Library.Word"
begin

section \<open>Numbers, tensors and errors\<close>

text \<open>
  The renderer of \<^verbatim>\<open>nerf/renderer.py\<close> computes on float32 tensors. Tensor elements are
  modelled as exact reals: rounding and overflow are not modelled. The two places where
  the source's own arithmetic leaves the finite numbers are kept: a torch division whose
  denominator is zero does not raise, it yields NaN (for \<open>0 / 0\<close>) or an infinity, and the
  mean of an empty tensor is NaN. The result of such a division is an \<open>fl\<close>.
  External collaborators (the CUDA kernels of \<^verbatim>\<open>raymarching\<close>, the learned field) are
  parameters and are taken to return finite numbers.
\<close>

datatype fl = Fin real | PInf | NInf | NaN

definition fdiv :: "real \<Rightarrow> real \<Rightarrow> fl" where
  "fdiv a b =
     (if b \<noteq> 0 then Fin (a / b)
      else if a = 0 then NaN
      else if 0 < a then PInf else NInf)"

text \<open>IEEE comparison: every comparison with NaN is false.\<close>

fun fl_less :: "fl \<Rightarrow> fl \<Rightarrow> bool" where
  "fl_less NaN _ = False"
| "fl_less _ NaN = False"
| "fl_less (Fin a) (Fin b) = (a < b)"
| "fl_less (Fin a) PInf = True"
| "fl_less (Fin a) NInf = False"
| "fl_less PInf _ = False"
| "fl_less NInf NInf = False"
| "fl_less NInf _ = True"

text \<open>Python's builtin \<^verbatim>\<open>min(a, b)\<close>: the second argument wins only when it compares less.\<close>

definition py_min :: "fl \<Rightarrow> fl \<Rightarrow> fl" where
  "py_min a b = (if fl_less b a then b else a)"

datatype error = TypeError | AttributeError | RuntimeError | IndexError | KeyError

type_synonym vec3 = "real \<times> real \<times> real"
type_synonym coord = "nat \<times> nat \<times> nat"
type_synonym u8 = "8 word"

text \<open>
  A tensor of the results dict: its shape and its elements in row-major order. Per-ray
  scalars (depth, weight sums), per-ray colours (\<open>[..., 3]\<close>) and per-ray class vectors
  (\<open>[..., K]\<close>).
\<close>

datatype tensor =
    Scalars "nat list" "fl list"
  | Colors "nat list" "vec3 list"
  | Classes "nat list" "real list list"

type_synonym results = "string \<rightharpoonup> tensor"

text \<open>The rays of a call: \<^verbatim>\<open>rays_o\<close>, \<^verbatim>\<open>rays_d\<close> of shape \<open>[B, N, 3]\<close>, row-major.\<close>

record ray_batch =
  rb_B :: nat
  rb_N :: nat
  rays_o :: "vec3 list"
  rays_d :: "vec3 list"

text \<open>\<^verbatim>\<open>bg_color\<close>: a number, a \<open>[3]\<close> colour, or one colour per ray (\<open>[N, 3]\<close>).\<close>

datatype bg_color = BgScalar real | BgRGB vec3 | BgPerRay "vec3 list"

text \<open>The keyword parameters of \<^verbatim>\<open>rays_rgb\<close>, \<^verbatim>\<open>rays_semantic\<close> and \<^verbatim>\<open>run_cuda\<close>.\<close>

record render_args =
  dt_gamma :: real
  bg_color :: "bg_color option"
  perturb :: bool
  force_all_rays :: bool
  max_steps :: int
  T_thresh :: real

text \<open>\<^verbatim>\<open>**kwargs\<close> of \<^verbatim>\<open>render\<close>: each recognised key is present or absent.\<close>

record kwargs =
  kw_dt_gamma :: "real option"
  kw_bg_color :: "bg_color option"
  kw_perturb :: "bool option"
  kw_force_all_rays :: "bool option"
  kw_max_steps :: "int option"
  kw_T_thresh :: "real option"

definition bind_args :: "kwargs \<Rightarrow> render_args" where
  "bind_args kw =
     \<lparr> dt_gamma = (case kw_dt_gamma kw of None \<Rightarrow> 0 | Some g \<Rightarrow> g),
       bg_color = kw_bg_color kw,
       perturb = (case kw_perturb kw of None \<Rightarrow> False | Some p \<Rightarrow> p),
       force_all_rays = (case kw_force_all_rays kw of None \<Rightarrow> False | Some f \<Rightarrow> f),
       max_steps = (case kw_max_steps kw of None \<Rightarrow> 1024 | Some m \<Rightarrow> m),
       T_thresh = (case kw_T_thresh kw of None \<Rightarrow> 1 / 10000 | Some t \<Rightarrow> t) \<rparr>"

section \<open>The renderer's state\<close>

text \<open>
  The attributes of \<^verbatim>\<open>NeRFRenderer\<close>. \<^verbatim>\<open>__init__\<close> sets \<^verbatim>\<open>grid_size\<close> to 128; it is
  a field here so that the definitions can be run on a small grid. The density grid, the
  bitfield and the step counter exist only when \<^verbatim>\<open>cuda_ray\<close> is set: reading them
  otherwise raises \<^verbatim>\<open>AttributeError\<close>, which the operations below write out.
\<close>

record renderer =
  bound :: real
  cascade :: nat
  grid_size :: nat
  density_scale :: real
  min_near :: real
  density_thresh :: real
  bg_radius :: real
  aabb_train :: "real list"
  aabb_infer :: "real list"
  cuda_ray :: bool
  training :: bool
  density_grid :: "real list list"
  density_bitfield :: "u8 list"
  mean_density :: fl
  iter_density :: nat
  step_counter :: "(int \<times> int) list"
  mean_count :: int
  local_step :: nat

section \<open>External collaborators of a render call\<close>

text \<open>The arguments of \<^verbatim>\<open>raymarching.march_rays_train\<close>, in the order of the call.\<close>

record march_train_args =
  mt_rays_o :: "vec3 list"
  mt_rays_d :: "vec3 list"
  mt_bound :: real
  mt_bitfield :: "u8 list"
  mt_cascade :: nat
  mt_grid_size :: nat
  mt_nears :: "real list"
  mt_fars :: "real list"
  mt_counter :: "int \<times> int"
  mt_mean_count :: int
  mt_perturb :: bool
  mt_align :: int
  mt_force_all_rays :: bool
  mt_dt_gamma :: real
  mt_max_steps :: int

text \<open>The arguments of \<^verbatim>\<open>raymarching.march_rays\<close>, in the order of the call.\<close>

record march_args =
  ma_n_alive :: nat
  ma_n_step :: int
  ma_rays_alive :: "int list"
  ma_rays_t :: "real list"
  ma_rays_o :: "vec3 list"
  ma_rays_d :: "vec3 list"
  ma_bound :: real
  ma_bitfield :: "u8 list"
  ma_cascade :: nat
  ma_grid_size :: nat
  ma_nears :: "real list"
  ma_fars :: "real list"
  ma_align :: int
  ma_perturb :: bool
  ma_dt_gamma :: real
  ma_max_steps :: int

text \<open>Samples: positions, directions and the \<open>[M, 2]\<close> step lengths.\<close>

type_synonym samples = "vec3 list \<times> vec3 list \<times> (real \<times> real) list"

text \<open>
  The per-ray accumulators of the inference path, with the loop's step counter: the
  buffers that \<^verbatim>\<open>composite_rays_rgb\<close> and \<^verbatim>\<open>composite_rays_semantic\<close> update in place.
  \<open>'c\<close> is the channel vector of a ray: a colour or a class vector.
\<close>

record 'c march_state =
  ms_step :: int
  ms_alive :: "int list"
  ms_t :: "real list"
  ms_weights :: "real list"
  ms_depth :: "real list"
  ms_image :: "'c list"

text \<open>
  The functions of \<^verbatim>\<open>raymarching\<close> and of the subclass (\<^verbatim>\<open>forward\<close>, \<^verbatim>\<open>background\<close>)
  that a render call uses. A kernel that writes into a tensor it is given returns the
  new contents: \<^verbatim>\<open>march_rays_train\<close> returns the counter row, the inference compositors
  return the alive indices, the distances and the three accumulators.
  \<^verbatim>\<open>torch.empty\<close> returns uninitialised memory: whatever the three last fields give.
\<close>

record ext =
  near_far_from_aabb :: "vec3 list \<Rightarrow> vec3 list \<Rightarrow> real list \<Rightarrow> real \<Rightarrow> real list \<times> real list"
  sph_from_ray :: "vec3 list \<Rightarrow> vec3 list \<Rightarrow> real \<Rightarrow> (real \<times> real) list"
  background :: "(real \<times> real) list \<Rightarrow> vec3 list \<Rightarrow> vec3 list"
  march_rays_train :: "march_train_args \<Rightarrow> samples \<times> (int \<times> int \<times> int) list \<times> (int \<times> int)"
  forward :: "vec3 list \<Rightarrow> vec3 list \<Rightarrow> real list \<times> vec3 list \<times> real list list"
  composite_rays_train_rgb ::
    "real list \<Rightarrow> vec3 list \<Rightarrow> (real \<times> real) list \<Rightarrow> (int \<times> int \<times> int) list \<Rightarrow> real
       \<Rightarrow> real list \<times> real list \<times> vec3 list"
  composite_rays_train_semantic ::
    "real list \<Rightarrow> real list list \<Rightarrow> nat \<Rightarrow> (real \<times> real) list \<Rightarrow> (int \<times> int \<times> int) list \<Rightarrow> real
       \<Rightarrow> real list \<times> real list \<times> real list list"
  march_rays :: "march_args \<Rightarrow> samples"
  composite_rays_rgb ::
    "nat \<Rightarrow> int \<Rightarrow> real list \<Rightarrow> vec3 list \<Rightarrow> (real \<times> real) list \<Rightarrow> real
       \<Rightarrow> vec3 march_state \<Rightarrow> vec3 march_state"
  composite_rays_semantic ::
    "nat \<Rightarrow> int \<Rightarrow> real list \<Rightarrow> real list list \<Rightarrow> nat \<Rightarrow> (real \<times> real) list \<Rightarrow> real
       \<Rightarrow> (real list) march_state \<Rightarrow> (real list) march_state"
  torch_empty_scalars :: "nat \<Rightarrow> fl list"
  torch_empty_colors :: "nat \<Rightarrow> vec3 list"
  torch_empty_classes :: "nat \<Rightarrow> nat \<Rightarrow> real list list"

section \<open>The two ray passes\<close>

text \<open>
  \<^verbatim>\<open>rays_rgb\<close> lines 143-148 and \<^verbatim>\<open>rays_semantic\<close> lines 242-247: the background model
  when \<^verbatim>\<open>bg_radius > 0\<close>, else the argument, else 1.
\<close>

definition background_color ::
  "ext \<Rightarrow> renderer \<Rightarrow> vec3 list \<Rightarrow> vec3 list \<Rightarrow> bg_color option \<Rightarrow> bg_color" where
  "background_color E st ro rd bg =
     (if 0 < bg_radius st then BgPerRay (background E (sph_from_ray E ro rd (bg_radius st)) rd)
      else case bg of None \<Rightarrow> BgScalar 1 | Some c \<Rightarrow> c)"

text \<open>Broadcasting of the background against the \<open>[N, 3]\<close> image.\<close>

fun bg_at :: "bg_color \<Rightarrow> nat \<Rightarrow> vec3" where
  "bg_at (BgScalar c) i = (c, c, c)"
| "bg_at (BgRGB v) i = v"
| "bg_at (BgPerRay rows) i = (if length rows = 1 then rows ! 0 else rows ! i)"

fun bg_broadcasts :: "bg_color \<Rightarrow> nat \<Rightarrow> bool" where
  "bg_broadcasts (BgPerRay rows) N = (length rows = N \<or> length rows = 1)"
| "bg_broadcasts _ N = True"

definition mix1 :: "vec3 \<Rightarrow> real \<Rightarrow> vec3 \<Rightarrow> vec3" where
  "mix1 px w bg =
     (case (px, bg) of ((r, g, b), (br, bgr, bb)) \<Rightarrow>
        (r + (1 - w) * br, g + (1 - w) * bgr, b + (1 - w) * bb))"

text \<open>Lines 166 and 218: \<^verbatim>\<open>image = image + (1 - weights_sum_rgb).unsqueeze(-1) * bg_color\<close>.\<close>

definition mix_background ::
  "vec3 list \<Rightarrow> real list \<Rightarrow> bg_color \<Rightarrow> nat \<Rightarrow> error + vec3 list" where
  "mix_background img ws bg N =
     (if bg_broadcasts bg N
      then Inr (map (\<lambda>i. mix1 (img ! i) (ws ! i) (bg_at bg i)) [0..<N])
      else Inl RuntimeError)"

text \<open>
  Lines 167, 219, 265 and 318:
  \<^verbatim>\<open>depth = torch.clamp(depth - nears, min=0) / (fars - nears)\<close>.
\<close>

definition normalize_depth :: "real list \<Rightarrow> real list \<Rightarrow> real list \<Rightarrow> nat \<Rightarrow> fl list" where
  "normalize_depth depth nears fars N =
     map (\<lambda>i. fdiv (max (depth ! i - nears ! i) 0) (fars ! i - nears ! i)) [0..<N]"

text \<open>Lines 201 and 300: \<^verbatim>\<open>n_step = max(min(N // n_alive, 8), 1)\<close>.\<close>

definition n_step_of :: "nat \<Rightarrow> nat \<Rightarrow> int" where
  "n_step_of N n_alive = max (min (int N div int n_alive) 8) 1"

text \<open>
  One round of the loops of lines 191-215 and 290-313, after the exit test: the kernels
  of the round (march, field, composite), then the compaction
  \<^verbatim>\<open>rays_alive = rays_alive[rays_alive >= 0]\<close> and \<^verbatim>\<open>step += n_step\<close>. The kernels get
  \<^verbatim>\<open>n_alive\<close>, \<^verbatim>\<open>n_step\<close> and whether \<^verbatim>\<open>step == 0\<close>.
\<close>

definition march_round ::
  "(nat \<Rightarrow> int \<Rightarrow> bool \<Rightarrow> 'c march_state \<Rightarrow> 'c march_state) \<Rightarrow> nat \<Rightarrow> 'c march_state \<Rightarrow> 'c march_state" where
  "march_round rnd N s =
     (let n_alive = length (ms_alive s);
          n_step = n_step_of N n_alive;
          s' = rnd n_alive n_step (ms_step s = 0) s
      in s'\<lparr> ms_alive := filter (\<lambda>r. 0 \<le> r) (ms_alive s'), ms_step := ms_step s + n_step \<rparr>)"

text \<open>
  The loop \<^verbatim>\<open>while step < max_steps\<close>, with its \<^verbatim>\<open>break\<close> when no ray is alive. The body
  reads \<^verbatim>\<open>self.density_bitfield\<close>, which raises when the renderer was built without
  \<^verbatim>\<open>cuda_ray\<close>.
\<close>

function march_loop ::
  "(nat \<Rightarrow> int \<Rightarrow> bool \<Rightarrow> 'c march_state \<Rightarrow> 'c march_state) \<Rightarrow> bool \<Rightarrow> nat \<Rightarrow> int
     \<Rightarrow> 'c march_state \<Rightarrow> error + 'c march_state" where
  "march_loop rnd has_buffers N msteps s =
     (if ms_step s < msteps then
        (if length (ms_alive s) \<le> 0 then Inr s
         else if \<not> has_buffers then Inl AttributeError
         else march_loop rnd has_buffers N msteps (march_round rnd N s))
      else Inr s)"
  by pat_completeness auto
termination
  by (relation "measure (\<lambda>(rnd, has_buffers, N, msteps, s). nat (msteps - ms_step s))")
     (auto simp: march_round_def n_step_of_def Let_def)

declare march_loop.simps [simp del]

text \<open>
  The same loop as a relation between the state at the loop's head, the number of
  rounds run from there and the outcome: a derivation is a finite run of the loop.
\<close>

inductive march_exec ::
  "(nat \<Rightarrow> int \<Rightarrow> bool \<Rightarrow> 'c march_state \<Rightarrow> 'c march_state) \<Rightarrow> bool \<Rightarrow> nat \<Rightarrow> int
     \<Rightarrow> 'c march_state \<Rightarrow> nat \<Rightarrow> error + 'c march_state \<Rightarrow> bool"
  for rnd :: "nat \<Rightarrow> int \<Rightarrow> bool \<Rightarrow> 'c march_state \<Rightarrow> 'c march_state"
  and has_buffers :: bool and N :: nat and msteps :: int where
  exit_cap: "\<not> ms_step s < msteps \<Longrightarrow> march_exec rnd has_buffers N msteps s 0 (Inr s)"
| exit_empty: "ms_step s < msteps \<Longrightarrow> ms_alive s = []
     \<Longrightarrow> march_exec rnd has_buffers N msteps s 0 (Inr s)"
| exit_raise: "ms_step s < msteps \<Longrightarrow> ms_alive s \<noteq> [] \<Longrightarrow> \<not> has_buffers
     \<Longrightarrow> march_exec rnd has_buffers N msteps s 0 (Inl AttributeError)"
| round: "ms_step s < msteps \<Longrightarrow> ms_alive s \<noteq> [] \<Longrightarrow> has_buffers
     \<Longrightarrow> march_exec rnd has_buffers N msteps (march_round rnd N s) k r
     \<Longrightarrow> march_exec rnd has_buffers N msteps s (Suc k) r"

code_pred march_exec .

text \<open>The spec's \<open>clamp(x, lo, hi)\<close>.\<close>

definition clamp_spec :: "int \<Rightarrow> int \<Rightarrow> int \<Rightarrow> int" where
  "clamp_spec x lo hi = (if x < lo then lo else if hi < x then hi else x)"

text \<open>The kernels of one round of the RGB pass (lines 203-209).\<close>

definition rgb_round ::
  "ext \<Rightarrow> renderer \<Rightarrow> vec3 list \<Rightarrow> vec3 list \<Rightarrow> real list \<Rightarrow> real list \<Rightarrow> render_args
     \<Rightarrow> nat \<Rightarrow> int \<Rightarrow> bool \<Rightarrow> vec3 march_state \<Rightarrow> vec3 march_state" where
  "rgb_round E st ro rd nears fars args n_alive n_step first s =
     (let (xyzs, dirs, deltas) = march_rays E
            \<lparr> ma_n_alive = n_alive, ma_n_step = n_step, ma_rays_alive = ms_alive s,
              ma_rays_t = ms_t s, ma_rays_o = ro, ma_rays_d = rd, ma_bound = bound st,
              ma_bitfield = density_bitfield st, ma_cascade = cascade st,
              ma_grid_size = grid_size st, ma_nears = nears, ma_fars = fars, ma_align = 128,
              ma_perturb = (if first then perturb args else False),
              ma_dt_gamma = dt_gamma args, ma_max_steps = max_steps args \<rparr>;
          (sigmas, rgbs, _) = forward E xyzs dirs;
          sigmas = map (\<lambda>x. density_scale st * x) sigmas
      in composite_rays_rgb E n_alive n_step sigmas rgbs deltas (T_thresh args) s)"

text \<open>The kernels of one round of the semantic pass (lines 302-307).\<close>

definition semantic_round ::
  "ext \<Rightarrow> renderer \<Rightarrow> vec3 list \<Rightarrow> vec3 list \<Rightarrow> real list \<Rightarrow> real list \<Rightarrow> nat \<Rightarrow> render_args
     \<Rightarrow> nat \<Rightarrow> int \<Rightarrow> bool \<Rightarrow> (real list) march_state \<Rightarrow> (real list) march_state" where
  "semantic_round E st ro rd nears fars K args n_alive n_step first s =
     (let (xyzs, dirs, deltas) = march_rays E
            \<lparr> ma_n_alive = n_alive, ma_n_step = n_step, ma_rays_alive = ms_alive s,
              ma_rays_t = ms_t s, ma_rays_o = ro, ma_rays_d = rd, ma_bound = bound st,
              ma_bitfield = density_bitfield st, ma_cascade = cascade st,
              ma_grid_size = grid_size st, ma_nears = nears, ma_fars = fars, ma_align = 128,
              ma_perturb = (if first then perturb args else False),
              ma_dt_gamma = dt_gamma args, ma_max_steps = max_steps args \<rparr>;
          (sigmas, _, semantics) = forward E xyzs dirs;
          sigmas = map (\<lambda>x. density_scale st * x) sigmas
      in composite_rays_semantic E n_alive n_step sigmas semantics K deltas (T_thresh args) s)"

text \<open>
  The march of the training path (lines 151-156 and 250-255): the counter row
  \<^verbatim>\<open>step_counter[local_step % 16]\<close> is zeroed, \<^verbatim>\<open>local_step\<close> advances, and the kernel
  writes the row.
\<close>

definition train_march ::
  "ext \<Rightarrow> renderer \<Rightarrow> vec3 list \<Rightarrow> vec3 list \<Rightarrow> real list \<Rightarrow> real list \<Rightarrow> render_args
     \<Rightarrow> renderer \<times> samples \<times> (int \<times> int \<times> int) list" where
  "train_march E st ro rd nears fars args =
     (let slot = local_step st mod 16;
          (smp, rays, counter) = march_rays_train E
            \<lparr> mt_rays_o = ro, mt_rays_d = rd, mt_bound = bound st,
              mt_bitfield = density_bitfield st, mt_cascade = cascade st,
              mt_grid_size = grid_size st, mt_nears = nears, mt_fars = fars,
              mt_counter = (0, 0), mt_mean_count = mean_count st, mt_perturb = perturb args,
              mt_align = 128, mt_force_all_rays = force_all_rays args,
              mt_dt_gamma = dt_gamma args, mt_max_steps = max_steps args \<rparr>
      in (st\<lparr> step_counter := (step_counter st)[slot := counter],
              local_step := local_step st + 1 \<rparr>, smp, rays))"

text \<open>
  The accumulation of the RGB pass, up to the background mix: the weight sum, the depth
  sum and the colour sum of every ray. Training (lines 150-164): one march, one field
  evaluation, one composite. Inference (lines 173-215): the round loop over zeroed
  buffers, all rays alive, \<^verbatim>\<open>rays_t = nears\<close>.
\<close>

definition rgb_accumulate ::
  "ext \<Rightarrow> renderer \<Rightarrow> vec3 list \<Rightarrow> vec3 list \<Rightarrow> real list \<Rightarrow> real list \<Rightarrow> render_args
     \<Rightarrow> error + renderer \<times> real list \<times> real list \<times> vec3 list" where
  "rgb_accumulate E st ro rd nears fars args =
     (if training st then
        (if \<not> cuda_ray st then Inl AttributeError
         else
           let (st', (xyzs, dirs, deltas), rays) = train_march E st ro rd nears fars args;
               (sigmas, rgbs, _) = forward E xyzs dirs;
               sigmas = map (\<lambda>x. density_scale st * x) sigmas
           in Inr (st', composite_rays_train_rgb E sigmas rgbs deltas rays (T_thresh args)))
      else
        (let N = length ro in
         case march_loop (rgb_round E st ro rd nears fars args) (cuda_ray st) N (max_steps args)
                \<lparr> ms_step = 0, ms_alive = map int [0..<N], ms_t = nears,
                  ms_weights = replicate N 0, ms_depth = replicate N 0,
                  ms_image = replicate N (0, 0, 0) \<rparr> of
           Inl e \<Rightarrow> Inl e
         | Inr s \<Rightarrow> Inr (st, ms_weights s, ms_depth s, ms_image s)))"

definition semantic_accumulate ::
  "ext \<Rightarrow> renderer \<Rightarrow> vec3 list \<Rightarrow> vec3 list \<Rightarrow> real list \<Rightarrow> real list \<Rightarrow> nat \<Rightarrow> render_args
     \<Rightarrow> error + renderer \<times> real list \<times> real list \<times> real list list" where
  "semantic_accumulate E st ro rd nears fars K args =
     (if training st then
        (if \<not> cuda_ray st then Inl AttributeError
         else
           let (st', (xyzs, dirs, deltas), rays) = train_march E st ro rd nears fars args;
               (sigmas, _, semantics) = forward E xyzs dirs;
               sigmas = map (\<lambda>x. density_scale st * x) sigmas
           in Inr (st', composite_rays_train_semantic E sigmas semantics K deltas rays (T_thresh args)))
      else
        (let N = length ro in
         case march_loop (semantic_round E st ro rd nears fars K args) (cuda_ray st) N (max_steps args)
                \<lparr> ms_step = 0, ms_alive = map int [0..<N], ms_t = nears,
                  ms_weights = replicate N 0, ms_depth = replicate N 0,
                  ms_image = replicate N (replicate K 0) \<rparr> of
           Inl e \<Rightarrow> Inl e
         | Inr s \<Rightarrow> Inr (st, ms_weights s, ms_depth s, ms_image s)))"

text \<open>Lines 140 and 239: the near and far distance of every ray.\<close>

definition pass_near_far :: "ext \<Rightarrow> renderer \<Rightarrow> ray_batch \<Rightarrow> real list \<times> real list" where
  "pass_near_far E st rays =
     near_far_from_aabb E (rays_o rays) (rays_d rays)
       (if training st then aabb_train st else aabb_infer st) (min_near st)"

text \<open>
  \<^verbatim>\<open>rays_rgb\<close> (lines 129-226). After the accumulation both branches mix the background
  into the image, normalise the depth and reshape to the rays' leading shape; the
  training branch also stores \<^verbatim>\<open>weights_sum_rgb\<close>. The method writes into the results
  dict it is given.
\<close>

definition rays_rgb ::
  "ext \<Rightarrow> renderer \<Rightarrow> results \<Rightarrow> ray_batch \<Rightarrow> nat \<Rightarrow> render_args \<Rightarrow> error + renderer \<times> results" where
  "rays_rgb E st res rays K args =
     (let shape = [rb_B rays, rb_N rays];
          ro = rays_o rays;
          rd = rays_d rays;
          N = length ro;
          (nears, fars) = pass_near_far E st rays;
          bg = background_color E st ro rd (bg_color args)
      in case rgb_accumulate E st ro rd nears fars args of
           Inl e \<Rightarrow> Inl e
         | Inr (st', weights_sum_rgb, depth, img) \<Rightarrow>
             (case mix_background img weights_sum_rgb bg N of
                Inl e \<Rightarrow> Inl e
              | Inr img' \<Rightarrow>
                  Inr (st',
                       (if training st
                        then res(''weights_sum_rgb'' \<mapsto> Scalars [N] (map Fin weights_sum_rgb))
                        else res)
                         (''depth'' \<mapsto> Scalars shape (normalize_depth depth nears fars N),
                          ''image'' \<mapsto> Colors shape img'))))"

text \<open>
  \<^verbatim>\<open>rays_semantic\<close> (lines 229-331). The background is computed as in \<^verbatim>\<open>rays_rgb\<close> and
  then not used: the lines that would mix it in are commented out (263-264, 315-317).
\<close>

definition rays_semantic ::
  "ext \<Rightarrow> renderer \<Rightarrow> results \<Rightarrow> ray_batch \<Rightarrow> nat \<Rightarrow> render_args \<Rightarrow> error + renderer \<times> results" where
  "rays_semantic E st res rays K args =
     (let shape = [rb_B rays, rb_N rays];
          ro = rays_o rays;
          rd = rays_d rays;
          N = length ro;
          (nears, fars) = pass_near_far E st rays;
          bg = background_color E st ro rd (bg_color args)
      in case semantic_accumulate E st ro rd nears fars K args of
           Inl e \<Rightarrow> Inl e
         | Inr (st', weights_sum_semantic, depth, semantic_image) \<Rightarrow>
             Inr (st',
                  (if training st
                   then res(''weights_sum_semantic'' \<mapsto> Scalars [N] (map Fin weights_sum_semantic))
                   else res)
                    (''depth'' \<mapsto> Scalars shape (normalize_depth depth nears fars N),
                     ''semantic'' \<mapsto> Classes (shape @ [K]) semantic_image)))"

text \<open>\<^verbatim>\<open>run_cuda\<close> (lines 334-343): both passes write into one dict, RGB first.\<close>

definition run_cuda ::
  "ext \<Rightarrow> renderer \<Rightarrow> ray_batch \<Rightarrow> nat \<Rightarrow> render_args \<Rightarrow> error + renderer \<times> results" where
  "run_cuda E st rays K args =
     (case rays_rgb E st Map.empty rays K args of
        Inl e \<Rightarrow> Inl e
      | Inr (st1, results) \<Rightarrow> rays_semantic E st1 results rays K args)"

section \<open>The compositor of the spec\<close>

text \<open>
  Modelled from the spec: the compositing kernels of \<^verbatim>\<open>raymarching\<close> are not among the
  sources; the passes above take them as collaborators. The spec (section 4.5) gives
  their algorithm for one ray, over its samples (density, step length, distance, channel
  vector) in order of distance: \<open>alpha = 1 - exp(-sigma * delta)\<close>, the weight is
  \<open>alpha\<close> times the transmittance so far, the transmittance is multiplied by
  \<open>1 - alpha\<close>, the sums advance by the weight times the channel, the distance and 1, and
  accumulation stops once the weight sum exceeds \<open>1 - T_thresh\<close>.
\<close>

record comp_acc =
  ca_T :: real
  ca_weight_sum :: real
  ca_depth_sum :: real
  ca_channel_sum :: "real list"

fun composite_spec ::
  "real \<Rightarrow> (real \<times> real \<times> real \<times> real list) list \<Rightarrow> comp_acc \<Rightarrow> comp_acc" where
  "composite_spec thresh [] a = a"
| "composite_spec thresh ((sigma, delta, t, ch) # rest) a =
     (if 1 - thresh < ca_weight_sum a then a
      else
        let alpha = 1 - exp (- sigma * delta);
            weight = alpha * ca_T a
        in composite_spec thresh rest
             \<lparr> ca_T = ca_T a * (1 - alpha),
               ca_weight_sum = ca_weight_sum a + weight,
               ca_depth_sum = ca_depth_sum a + weight * t,
               ca_channel_sum = map (\<lambda>(s, c). s + weight * c) (zip (ca_channel_sum a) ch) \<rparr>)"

section \<open>The render orchestrator\<close>

text \<open>
  A call of \<^verbatim>\<open>run_cuda\<close> as Python binds it. \<^verbatim>\<open>semantic_class_length\<close> is a required
  positional parameter: a call that does not supply it raises \<^verbatim>\<open>TypeError\<close> before the
  body runs. The other parameters take their defaults where \<^verbatim>\<open>**kwargs\<close> has no entry.
  \<^verbatim>\<open>render\<close> names \<^verbatim>\<open>semantic_class_length\<close> as a parameter of its own, so its
  \<^verbatim>\<open>**kwargs\<close> never holds that key.
\<close>

definition call_run_cuda ::
  "ext \<Rightarrow> renderer \<Rightarrow> ray_batch \<Rightarrow> nat option \<Rightarrow> kwargs \<Rightarrow> error + renderer \<times> results" where
  "call_run_cuda E st rays semantic_class_length kw =
     (case semantic_class_length of
        None \<Rightarrow> Inl TypeError
      | Some K \<Rightarrow> run_cuda E st rays K (bind_args kw))"

text \<open>Python's slice \<^verbatim>\<open>xs[a:b]\<close>: a negative bound counts from the end, both are clipped.\<close>

definition py_bound :: "int \<Rightarrow> nat \<Rightarrow> nat" where
  "py_bound i n = (if i < 0 then nat (max (i + int n) 0) else min (nat i) n)"

definition py_slice :: "'a list \<Rightarrow> int \<Rightarrow> int \<Rightarrow> 'a list" where
  "py_slice xs a b =
     (let lo = py_bound a (length xs); hi = py_bound b (length xs)
      in take (hi - lo) (drop lo xs))"

text \<open>\<^verbatim>\<open>rays_o[b:b+1, head:tail]\<close> and \<^verbatim>\<open>rays_d[b:b+1, head:tail]\<close>.\<close>

definition slice_rays :: "ray_batch \<Rightarrow> nat \<Rightarrow> int \<Rightarrow> int \<Rightarrow> ray_batch" where
  "slice_rays rays b head tail =
     (let row_o = take (rb_N rays) (drop (b * rb_N rays) (rays_o rays));
          row_d = take (rb_N rays) (drop (b * rb_N rays) (rays_d rays));
          so = py_slice row_o head tail
      in \<lparr> rb_B = 1, rb_N = length so, rays_o = so, rays_d = py_slice row_d head tail \<rparr>)"

text \<open>The three output buffers of the staged path (lines 523-525).\<close>

record staged_bufs =
  sb_depth :: "fl list"
  sb_image :: "vec3 list"
  sb_semantic :: "real list list"

definition write_slice :: "'a list \<Rightarrow> nat \<Rightarrow> 'a list \<Rightarrow> 'a list" where
  "write_slice buf off vals = take off buf @ vals @ drop (off + length vals) buf"

text \<open>
  Lines 533-535: the chunk's three results are written at the chunk's offset. A missing
  key raises \<^verbatim>\<open>KeyError\<close>, a result of another size than the slice \<^verbatim>\<open>RuntimeError\<close>.
\<close>

definition store_chunk ::
  "ray_batch \<Rightarrow> nat \<Rightarrow> int \<Rightarrow> int \<Rightarrow> results \<Rightarrow> staged_bufs \<Rightarrow> error + staged_bufs" where
  "store_chunk rays b head tail res bufs =
     (case (res ''depth'', res ''image'', res ''semantic'') of
        (Some (Scalars sd d), Some (Colors si im), Some (Classes ss sm)) \<Rightarrow>
          (let lo = py_bound head (rb_N rays);
               hi = py_bound tail (rb_N rays);
               off = b * rb_N rays + lo
           in if length d = hi - lo \<and> length im = hi - lo \<and> length sm = hi - lo
              then Inr \<lparr> sb_depth = write_slice (sb_depth bufs) off d,
                         sb_image = write_slice (sb_image bufs) off im,
                         sb_semantic = write_slice (sb_semantic bufs) off sm \<rparr>
              else Inl RuntimeError)
      | _ \<Rightarrow> Inl KeyError)"

text \<open>
  The loop \<^verbatim>\<open>while head < N\<close> of lines 528-536, for one batch row \<open>b\<close>. The call of line
  532 is \<^verbatim>\<open>_run(rays_o[...], rays_d[...], **kwargs)\<close>: it passes no
  \<^verbatim>\<open>semantic_class_length\<close>.
\<close>

function staged_row ::
  "ext \<Rightarrow> kwargs \<Rightarrow> ray_batch \<Rightarrow> int \<Rightarrow> nat \<Rightarrow> int \<Rightarrow> renderer \<times> staged_bufs
     \<Rightarrow> error + renderer \<times> staged_bufs" where
  "staged_row E kw rays max_ray_batch b head (st, bufs) =
     (if head < int (rb_N rays) then
        (let tail = min (head + max_ray_batch) (int (rb_N rays)) in
         case call_run_cuda E st (slice_rays rays b head tail) None kw of
           Inl e \<Rightarrow> Inl e
         | Inr (st', results') \<Rightarrow>
             (case store_chunk rays b head tail results' bufs of
                Inl e \<Rightarrow> Inl e
              | Inr bufs' \<Rightarrow>
                  staged_row E kw rays max_ray_batch b (head + max_ray_batch) (st', bufs')))
      else Inr (st, bufs))"
  by pat_completeness auto
termination
  by (relation "{}") (auto simp: call_run_cuda_def)

declare staged_row.simps [simp del]

text \<open>The loop \<^verbatim>\<open>for b in range(B)\<close> of line 527.\<close>

fun staged_batches ::
  "ext \<Rightarrow> kwargs \<Rightarrow> ray_batch \<Rightarrow> int \<Rightarrow> nat list \<Rightarrow> renderer \<times> staged_bufs
     \<Rightarrow> error + renderer \<times> staged_bufs" where
  "staged_batches E kw rays max_ray_batch [] acc = Inr acc"
| "staged_batches E kw rays max_ray_batch (b # bs) acc =
     (case staged_row E kw rays max_ray_batch b 0 acc of
        Inl e \<Rightarrow> Inl e
      | Inr acc' \<Rightarrow> staged_batches E kw rays max_ray_batch bs acc')"

text \<open>\<^verbatim>\<open>render\<close> (lines 507-546).\<close>

definition render ::
  "ext \<Rightarrow> renderer \<Rightarrow> ray_batch \<Rightarrow> nat \<Rightarrow> bool \<Rightarrow> int \<Rightarrow> kwargs \<Rightarrow> error + renderer \<times> results" where
  "render E st rays semantic_class_length staged max_ray_batch kw =
     (let B = rb_B rays; N = rb_N rays in
      if staged \<and> \<not> cuda_ray st then
        (case staged_batches E kw rays max_ray_batch [0..<B]
                (st, \<lparr> sb_depth = torch_empty_scalars E (B * N),
                       sb_image = torch_empty_colors E (B * N),
                       sb_semantic = torch_empty_classes E (B * N) semantic_class_length \<rparr>) of
           Inl e \<Rightarrow> Inl e
         | Inr (st', bufs) \<Rightarrow>
             Inr (st', [''depth'' \<mapsto> Scalars [B, N] (sb_depth bufs),
                        ''image'' \<mapsto> Colors [B, N] (sb_image bufs),
                        ''semantic'' \<mapsto> Classes [B, N, semantic_class_length] (sb_semantic bufs)]))
      else call_run_cuda E st rays (Some semantic_class_length) kw)"

section \<open>The grid updater\<close>

text \<open>
  The collaborators of \<^verbatim>\<open>update_extra_state\<close>: the Morton indexer and the bit packer
  of \<^verbatim>\<open>raymarching\<close>, the density field of the subclass, and the random draws of one
  call (\<^verbatim>\<open>torch.rand_like\<close> for a cascade and a batch of positions,
  \<^verbatim>\<open>torch.randint(0, high, ...)\<close> for a cascade, a bound and a count).
  \<^verbatim>\<open>packbits(grid, thresh, bitfield)\<close> gets the grid, the threshold and the old bitfield
  and returns the new one.
\<close>

record grid_ext =
  morton3D :: "coord list \<Rightarrow> nat list"
  morton3D_invert :: "nat list \<Rightarrow> coord list"
  density :: "vec3 list \<Rightarrow> real list"
  rand_like :: "nat \<Rightarrow> vec3 list \<Rightarrow> vec3 list"
  randint_coords :: "nat \<Rightarrow> nat \<Rightarrow> nat \<Rightarrow> coord list"
  randint_mask :: "nat \<Rightarrow> nat \<Rightarrow> nat \<Rightarrow> nat list"
  packbits :: "real list list \<Rightarrow> fl \<Rightarrow> u8 list \<Rightarrow> u8 list"

text \<open>\<^verbatim>\<open>tensor.split(S)\<close>: chunks of \<open>S\<close> elements, the last one shorter.\<close>

function split_t :: "nat \<Rightarrow> 'a list \<Rightarrow> 'a list list" where
  "split_t S xs = (if S = 0 \<or> length xs \<le> S then [xs] else take S xs # split_t S (drop S xs))"
  by pat_completeness auto
termination
  by (relation "measure (\<lambda>(S, xs). length xs)") auto

declare split_t.simps [simp del]

text \<open>
  Lines 436-448 and 469-478: the positions of the voxels \<open>coords\<close> in cascade \<open>cas\<close>,
  jittered, and the field's density there, scaled. The source's \<^verbatim>\<open>grid_size\<close> is 128;
  the positions are meant for \<open>grid_size \<ge> 2\<close>.
\<close>

definition scale3 :: "real \<Rightarrow> vec3 \<Rightarrow> vec3" where
  "scale3 k v = (case v of (x, y, z) \<Rightarrow> (x * k, y * k, z * k))"

definition query_sigmas :: "grid_ext \<Rightarrow> renderer \<Rightarrow> nat \<Rightarrow> coord list \<Rightarrow> real list" where
  "query_sigmas G st cas coords =
     (let gs = real (grid_size st);
          xyzs = map (\<lambda>(x, y, z). (2 * real x / (gs - 1) - 1,
                                   2 * real y / (gs - 1) - 1,
                                   2 * real z / (gs - 1) - 1)) coords;
          bnd = min (2 ^ cas) (bound st);
          half_grid_size = bnd / gs;
          cas_xyzs = map (scale3 (bnd - half_grid_size)) xyzs;
          noise = rand_like G cas cas_xyzs;
          cas_xyzs = map (\<lambda>((x, y, z), (u, v, w)).
                           (x + (u * 2 - 1) * half_grid_size,
                            y + (v * 2 - 1) * half_grid_size,
                            z + (w * 2 - 1) * half_grid_size)) (zip cas_xyzs noise);
          sigmas = density G cas_xyzs
      in map (\<lambda>s. s * density_scale st) sigmas)"

text \<open>
  \<^verbatim>\<open>tmp_grid[cas, indices] = sigmas\<close>. Torch broadcasts the values against the indexed
  cells: a value tensor of one element is written to every index, one of as many
  elements as there are indices is written element by element, in order, and any other
  length raises. An index out of range raises.
\<close>

definition broadcast_to :: "nat \<Rightarrow> real list \<Rightarrow> real list" where
  "broadcast_to n vs = (if length vs = 1 then replicate n (hd vs) else vs)"

fun index_put :: "real list \<Rightarrow> nat list \<Rightarrow> real list \<Rightarrow> error + real list" where
  "index_put row [] [] = Inr row"
| "index_put row (i # ixs) (v # vs) =
     (if i < length row then index_put (row[i := v]) ixs vs else Inl IndexError)"
| "index_put row _ _ = Inl RuntimeError"

definition assign_row ::
  "real list list \<Rightarrow> nat \<Rightarrow> nat list \<Rightarrow> real list \<Rightarrow> error + real list list" where
  "assign_row tmp cas indices sigmas =
     (if cas < length tmp then
        (case index_put (tmp ! cas) indices (broadcast_to (length indices) sigmas) of
           Inl e \<Rightarrow> Inl e
         | Inr row \<Rightarrow> Inr (tmp[cas := row]))
      else Inl IndexError)"

text \<open>The loop \<^verbatim>\<open>for cas in range(self.cascade)\<close> of the full sweep (lines 439-450).\<close>

fun sweep_cascades ::
  "grid_ext \<Rightarrow> renderer \<Rightarrow> coord list \<Rightarrow> nat list \<Rightarrow> nat list \<Rightarrow> real list list
     \<Rightarrow> error + real list list" where
  "sweep_cascades G st coords indices [] tmp = Inr tmp"
| "sweep_cascades G st coords indices (cas # cs) tmp =
     (case assign_row tmp cas indices (query_sigmas G st cas coords) of
        Inl e \<Rightarrow> Inl e
      | Inr tmp' \<Rightarrow> sweep_cascades G st coords indices cs tmp')"

text \<open>The loops over the chunks \<^verbatim>\<open>xs\<close>, \<^verbatim>\<open>ys\<close>, \<^verbatim>\<open>zs\<close> (lines 428-435).\<close>

fun sweep_chunks ::
  "grid_ext \<Rightarrow> renderer \<Rightarrow> (nat list \<times> nat list \<times> nat list) list \<Rightarrow> real list list
     \<Rightarrow> error + real list list" where
  "sweep_chunks G st [] tmp = Inr tmp"
| "sweep_chunks G st ((xs, ys, zs) # rest) tmp =
     (let coords = [(x, y, z). x \<leftarrow> xs, y \<leftarrow> ys, z \<leftarrow> zs];
          indices = morton3D G coords
      in case sweep_cascades G st coords indices [0..<cascade st] tmp of
           Inl e \<Rightarrow> Inl e
         | Inr tmp' \<Rightarrow> sweep_chunks G st rest tmp')"

text \<open>
  The full update (lines 422-450). \<^verbatim>\<open>split(0)\<close> of a non-empty tensor raises.
\<close>

definition full_sweep ::
  "grid_ext \<Rightarrow> renderer \<Rightarrow> nat \<Rightarrow> real list list \<Rightarrow> error + real list list" where
  "full_sweep G st S tmp =
     (if S = 0 \<and> 0 < grid_size st then Inl RuntimeError
      else
        let X = split_t S [0..<grid_size st]
        in sweep_chunks G st [(xs, ys, zs). xs \<leftarrow> X, ys \<leftarrow> X, zs \<leftarrow> X] tmp)"

text \<open>
  The partial update (lines 454-480), for the cascades still to do. The occupied cells
  are those with \<^verbatim>\<open>density_grid[cas] > 0\<close>; with none of them
  \<^verbatim>\<open>torch.randint(0, 0, ...)\<close> raises.
\<close>

fun partial_sweep ::
  "grid_ext \<Rightarrow> renderer \<Rightarrow> nat list \<Rightarrow> real list list \<Rightarrow> error + real list list" where
  "partial_sweep G st [] tmp = Inr tmp"
| "partial_sweep G st (cas # cs) tmp =
     (let N = grid_size st ^ 3 div 4;
          coords = randint_coords G cas (grid_size st) N;
          indices = morton3D G coords
      in if length (density_grid st) \<le> cas then Inl IndexError
         else
           let row = density_grid st ! cas;
               occ_indices = filter (\<lambda>i. 0 < row ! i) [0..<length row]
           in if occ_indices = [] then Inl RuntimeError
              else
                let rand_mask = randint_mask G cas (length occ_indices) N
                in if \<not> list_all (\<lambda>j. j < length occ_indices) rand_mask then Inl IndexError
                   else
                     let occ_indices = map (\<lambda>j. occ_indices ! j) rand_mask;
                         occ_coords = morton3D_invert G occ_indices;
                         indices = indices @ occ_indices;
                         coords = coords @ occ_coords
                     in case assign_row tmp cas indices (query_sigmas G st cas coords) of
                          Inl e \<Rightarrow> Inl e
                        | Inr tmp' \<Rightarrow> partial_sweep G st cs tmp')"

text \<open>
  Lines 419-480: \<^verbatim>\<open>tmp_grid\<close>, all \<open>-1\<close> at first, then the freshly evaluated densities
  where the regime of this call (full for the first 16 calls, partial after) evaluates.
\<close>

definition sweep :: "grid_ext \<Rightarrow> renderer \<Rightarrow> nat \<Rightarrow> error + real list list" where
  "sweep G st S =
     (let tmp_grid = map (\<lambda>row. map (\<lambda>_. - 1) row) (density_grid st)
      in if iter_density st < 16 then full_sweep G st S tmp_grid
         else partial_sweep G st [0..<cascade st] tmp_grid)"

text \<open>
  Lines 488-489:
  \<^verbatim>\<open>valid_mask = (self.density_grid >= 0) & (tmp_grid >= 0)\<close> and
  \<^verbatim>\<open>self.density_grid[valid_mask] = torch.maximum(self.density_grid[valid_mask] * decay, tmp_grid[valid_mask])\<close>.
\<close>

definition ema_cell :: "real \<Rightarrow> real \<Rightarrow> real \<Rightarrow> real" where
  "ema_cell decay g t = (if 0 \<le> g \<and> 0 \<le> t then max (g * decay) t else g)"

definition ema_update :: "real \<Rightarrow> real list list \<Rightarrow> real list list \<Rightarrow> real list list" where
  "ema_update decay grid tmp_grid =
     map (\<lambda>(row, trow). map (\<lambda>(g, t). ema_cell decay g t) (zip row trow)) (zip grid tmp_grid)"

text \<open>Line 490: \<^verbatim>\<open>torch.mean(self.density_grid.clamp(min=0)).item()\<close>.\<close>

definition mean_clamped :: "real list list \<Rightarrow> fl" where
  "mean_clamped grid =
     fdiv (sum_list (map (\<lambda>g. max g 0) (concat grid))) (real (length (concat grid)))"

text \<open>
  Modelled from the spec: \<^verbatim>\<open>raymarching.packbits\<close> is not among the sources. The spec
  (section 3) has the bitfield as the packed 1-bit-per-cell representation of
  \<open>density_grid > threshold\<close>, of \<open>cascade * grid_resolution^3 / 8\<close> bytes, rebuilt on
  every update (section 4.6): byte \<open>n\<close> holds the cells \<open>8 n, ..., 8 n + 7\<close>, lowest bit
  first, and the buffer passed in is overwritten. The updater below takes the packer
  as a collaborator; this one is the packer of the small scene.
\<close>

definition packbits_spec :: "real list list \<Rightarrow> fl \<Rightarrow> u8 list \<Rightarrow> u8 list" where
  "packbits_spec grid thresh bitfield =
     (let flat = concat grid
      in map (\<lambda>n. horner_sum of_bool 2 (map (\<lambda>i. fl_less thresh (Fin (flat ! (8 * n + i)))) [0..<8]))
           [0..<length flat div 8])"

text \<open>\<^verbatim>\<open>int(a / b)\<close> for an integer \<open>a\<close> and \<open>b > 0\<close>: the quotient, truncated towards zero.\<close>

definition int_trunc_div :: "int \<Rightarrow> int \<Rightarrow> int" where
  "int_trunc_div a b = (if 0 \<le> a then a div b else - ((- a) div b))"

text \<open>
  \<^verbatim>\<open>update_extra_state\<close> (lines 410-502). An exception of the sweep leaves the state as
  it was: the grid is written only after the sweep.
\<close>

definition update_extra_state ::
  "grid_ext \<Rightarrow> real \<Rightarrow> nat \<Rightarrow> renderer \<Rightarrow> error + renderer" where
  "update_extra_state G decay S st =
     (if \<not> cuda_ray st then Inr st
      else
        case sweep G st S of
          Inl e \<Rightarrow> Inl e
        | Inr tmp_grid \<Rightarrow>
            (let grid' = ema_update decay (density_grid st) tmp_grid;
                 mean = mean_clamped grid';
                 thresh = py_min mean (Fin (density_thresh st));
                 total_step = min 16 (local_step st)
             in Inr (st\<lparr> density_grid := grid',
                         mean_density := mean,
                         iter_density := iter_density st + 1,
                         density_bitfield := packbits G grid' thresh (density_bitfield st),
                         mean_count :=
                           (if 0 < total_step
                            then int_trunc_div
                                   (sum_list (map fst (take total_step (step_counter st))))
                                   (int total_step)
                            else mean_count st),
                         local_step := 0 \<rparr>)))"

section \<open>A small scene\<close>

text \<open>
  Concrete collaborators, on which the definitions above run. Two rays: the box gives
  the first one the interval from 2 to 6; the second one misses the box, so its near and
  far distance are equal. The inference compositors end every ray in their first round
  and leave fixed accumulators; the RGB pass and the semantic pass accumulate a different
  depth for the first ray (5 and 3). The background model, used only by a renderer with
  \<open>bg_radius > 0\<close>, is black for the first ray and \<open>(1/5, 2/5, 3/5)\<close> for the second.
\<close>

definition demo_composite ::
  "real list \<Rightarrow> real list \<Rightarrow> 'c list \<Rightarrow> 'c march_state \<Rightarrow> 'c march_state" where
  "demo_composite ws ds im s =
     s\<lparr> ms_alive := map (\<lambda>_. - 1) (ms_alive s), ms_weights := ws, ms_depth := ds, ms_image := im \<rparr>"

definition demo_ext :: ext where
  "demo_ext =
     \<lparr> near_far_from_aabb = (\<lambda>ro rd aabb mn. ([2, 4], [6, 4])),
       sph_from_ray = (\<lambda>ro rd r. [(0, 0), (0, 1 / 2)]),
       background = (\<lambda>sph rd. [(0, 0, 0), (1 / 5, 2 / 5, 3 / 5)]),
       march_rays_train = (\<lambda>a. (([], [], []), [], (7, 2))),
       forward = (\<lambda>xyzs dirs. ([], [], [])),
       composite_rays_train_rgb =
         (\<lambda>sg rgb dl rays T. ([3 / 4, 0], [5, 0], [(1 / 4, 1 / 2, 0), (0, 0, 0)])),
       composite_rays_train_semantic =
         (\<lambda>sg sem K dl rays T. ([3 / 4, 0], [3, 0], [[3 / 4, 0], [0, 0]])),
       march_rays = (\<lambda>a. ([], [], [])),
       composite_rays_rgb =
         (\<lambda>n k sg rgb dl T. demo_composite [3 / 4, 0] [5, 0] [(1 / 4, 1 / 2, 0), (0, 0, 0)]),
       composite_rays_semantic =
         (\<lambda>n k sg sem K dl T. demo_composite [3 / 4, 0] [3, 0] [[3 / 4, 0], [0, 0]]),
       torch_empty_scalars = (\<lambda>n. replicate n (Fin 0)),
       torch_empty_colors = (\<lambda>n. replicate n (0, 0, 0)),
       torch_empty_classes = (\<lambda>n K. replicate n (replicate K 0)) \<rparr>"

definition demo_renderer :: renderer where
  "demo_renderer =
     \<lparr> bound = 1, cascade = 1, grid_size = 2, density_scale = 1, min_near = 1 / 5,
       density_thresh = 1 / 100, bg_radius = - 1,
       aabb_train = [- 1, - 1, - 1, 1, 1, 1], aabb_infer = [- 1, - 1, - 1, 1, 1, 1],
       cuda_ray = True, training = False,
       density_grid = [[0, 0, - 1, 0, 0, 4, 0, 0]], density_bitfield = [0],
       mean_density = Fin 0, iter_density = 0,
       step_counter = replicate 16 (0, 0), mean_count = 0, local_step = 0 \<rparr>"

definition demo_rays :: ray_batch where
  "demo_rays =
     \<lparr> rb_B = 1, rb_N = 2, rays_o = [(0, 0, - 3), (0, 5, - 3)], rays_d = [(0, 0, 1), (0, 0, 1)] \<rparr>"

definition demo_kwargs :: kwargs where
  "demo_kwargs =
     \<lparr> kw_dt_gamma = None, kw_bg_color = None, kw_perturb = None,
       kw_force_all_rays = None, kw_max_steps = None, kw_T_thresh = None \<rparr>"

definition demo_results :: results where
  "demo_results =
     [''depth'' \<mapsto> Scalars [1, 2] [Fin (1 / 4), NaN],
      ''image'' \<mapsto> Colors [1, 2] [(1 / 2, 3 / 4, 1 / 4), (1, 1, 1)],
      ''semantic'' \<mapsto> Classes [1, 2, 2] [[3 / 4, 0], [0, 0]]]"

text \<open>The same renderer in training mode.\<close>

definition demo_trainer :: renderer where
  "demo_trainer = demo_renderer\<lparr> training := True \<rparr>"

text \<open>
  A grid of one cascade and \<open>2 x 2 x 2\<close> cells, in Morton order. Cell 2 is marked \<open>-1\<close>,
  cell 5 holds the density 4. The field's density is 3 where \<open>x > 0\<close> (the cells of odd
  index) and 0 elsewhere; the jitter is zero.
\<close>

definition demo_grid_ext :: grid_ext where
  "demo_grid_ext =
     \<lparr> morton3D = map (\<lambda>(x, y, z). x + 2 * y + 4 * z),
       morton3D_invert = map (\<lambda>i. (i mod 2, (i div 2) mod 2, i div 4)),
       density = map (\<lambda>(x, y, z). if 0 < x then 3 else 0),
       rand_like = (\<lambda>cas ps. map (\<lambda>_. (1 / 2, 1 / 2, 1 / 2)) ps),
       randint_coords = (\<lambda>cas high n. replicate n (0, 0, 0)),
       randint_mask = (\<lambda>cas high n. replicate n 0),
       packbits = packbits_spec \<rparr>"

text \<open>The small renderer after one update with \<open>decay = 1\<close>.\<close>

definition demo_updated :: renderer where
  "demo_updated =
     demo_renderer\<lparr> density_grid := [[0, 3, - 1, 3, 0, 4, 0, 3]],
                    mean_density := Fin (13 / 8),
                    iter_density := 1,
                    density_bitfield := [170] \<rparr>"

text \<open>
  The same renderer past its 16 full updates: the next update is a partial one. Its
  random draws are two voxels at the origin and twice the first occupied cell.
\<close>

definition demo_steady :: renderer where
  "demo_steady = demo_updated\<lparr> iter_density := 16 \<rparr>"





section \<open>The scene, evaluated\<close>

lemma demo_rays_rgb:
  "rays_rgb demo_ext demo_renderer res demo_rays 2 (bind_args demo_kwargs)
     = Inr (demo_renderer,
            res(''depth'' \<mapsto> Scalars [1, 2] [Fin (3 / 4), NaN],
                ''image'' \<mapsto> Colors [1, 2] [(1 / 2, 3 / 4, 1 / 4), (1, 1, 1)]))"
  by (simp add: rays_rgb_def rgb_accumulate_def pass_near_far_def demo_renderer_def
        demo_rays_def demo_kwargs_def bind_args_def demo_ext_def background_color_def
        march_loop.simps march_round_def rgb_round_def demo_composite_def n_step_of_def
        mix_background_def mix1_def normalize_depth_def fdiv_def Let_def upt_rec)

lemma demo_rays_semantic:
  "rays_semantic demo_ext demo_renderer res demo_rays 2 (bind_args demo_kwargs)
     = Inr (demo_renderer,
            res(''depth'' \<mapsto> Scalars [1, 2] [Fin (1 / 4), NaN],
                ''semantic'' \<mapsto> Classes [1, 2, 2] [[3 / 4, 0], [0, 0]]))"
  by (simp add: rays_semantic_def semantic_accumulate_def pass_near_far_def demo_renderer_def
        demo_rays_def demo_kwargs_def bind_args_def demo_ext_def background_color_def
        march_loop.simps march_round_def semantic_round_def demo_composite_def n_step_of_def
        normalize_depth_def fdiv_def Let_def upt_rec)

lemma demo_run_cuda:
  "run_cuda demo_ext demo_renderer demo_rays 2 (bind_args demo_kwargs)
     = Inr (demo_renderer, demo_results)"
proof -
  have "Map.empty
          (''depth'' \<mapsto> Scalars [1, 2] [Fin (3 / 4), NaN],
           ''image'' \<mapsto> Colors [1, 2] [(1 / 2, 3 / 4, 1 / 4), (1, 1, 1)],
           ''depth'' \<mapsto> Scalars [1, 2] [Fin (1 / 4), NaN],
           ''semantic'' \<mapsto> Classes [1, 2, 2] [[3 / 4, 0], [0, 0]]) = demo_results"
    unfolding demo_results_def by (rule ext) simp
  then show ?thesis
    by (simp only: run_cuda_def demo_rays_rgb demo_rays_semantic sum.case prod.case)
qed

lemma demo_render:
  "render demo_ext demo_renderer demo_rays 2 False 4096 demo_kwargs
     = Inr (demo_renderer, demo_results)"
  by (simp add: render_def call_run_cuda_def demo_run_cuda Let_def)

lemma demo_counter_0: "(replicate 16 x)[0 := y] = y # replicate 15 x"
  by (simp add: eval_nat_numeral)

lemma demo_counter_1: "(replicate 15 x)[0 := y] = y # replicate 14 x"
  by (simp add: eval_nat_numeral)

lemma demo_rays_rgb_train:
  "rays_rgb demo_ext demo_trainer res demo_rays 2 (bind_args demo_kwargs)
     = Inr (demo_trainer\<lparr> step_counter := (7, 2) # replicate 15 (0, 0), local_step := 1 \<rparr>,
            res(''weights_sum_rgb'' \<mapsto> Scalars [2] [Fin (3 / 4), Fin 0],
                ''depth'' \<mapsto> Scalars [1, 2] [Fin (3 / 4), NaN],
                ''image'' \<mapsto> Colors [1, 2] [(1 / 2, 3 / 4, 1 / 4), (1, 1, 1)]))"
  by (simp add: rays_rgb_def rgb_accumulate_def train_march_def pass_near_far_def
        demo_trainer_def demo_renderer_def demo_rays_def demo_kwargs_def bind_args_def
        demo_ext_def background_color_def mix_background_def mix1_def normalize_depth_def
        fdiv_def Let_def upt_rec demo_counter_0 demo_counter_1 numeral_2_eq_2 [symmetric])

lemma demo_rays_semantic_first:
  "rays_semantic demo_ext demo_trainer res demo_rays 2 (bind_args demo_kwargs)
     = Inr (demo_trainer\<lparr> step_counter := (7, 2) # replicate 15 (0, 0), local_step := 1 \<rparr>,
            res(''weights_sum_semantic'' \<mapsto> Scalars [2] [Fin (3 / 4), Fin 0],
                ''depth'' \<mapsto> Scalars [1, 2] [Fin (1 / 4), NaN],
                ''semantic'' \<mapsto> Classes [1, 2, 2] [[3 / 4, 0], [0, 0]]))"
  by (simp add: rays_semantic_def semantic_accumulate_def train_march_def pass_near_far_def
        demo_trainer_def demo_renderer_def demo_rays_def demo_kwargs_def bind_args_def
        demo_ext_def background_color_def normalize_depth_def
        fdiv_def Let_def upt_rec demo_counter_0 demo_counter_1 numeral_2_eq_2 [symmetric])

lemma demo_rays_semantic_train:
  "rays_semantic demo_ext
       (demo_trainer\<lparr> step_counter := (7, 2) # replicate 15 (0, 0), local_step := 1 \<rparr>)
       res demo_rays 2 (bind_args demo_kwargs)
     = Inr (demo_trainer\<lparr> step_counter := (7, 2) # (7, 2) # replicate 14 (0, 0), local_step := 2 \<rparr>,
            res(''weights_sum_semantic'' \<mapsto> Scalars [2] [Fin (3 / 4), Fin 0],
                ''depth'' \<mapsto> Scalars [1, 2] [Fin (1 / 4), NaN],
                ''semantic'' \<mapsto> Classes [1, 2, 2] [[3 / 4, 0], [0, 0]]))"
  by (simp add: rays_semantic_def semantic_accumulate_def train_march_def pass_near_far_def
        demo_trainer_def demo_renderer_def demo_rays_def demo_kwargs_def bind_args_def
        demo_ext_def background_color_def normalize_depth_def
        fdiv_def Let_def upt_rec demo_counter_0 demo_counter_1 numeral_2_eq_2 [symmetric])

lemma demo_run_cuda_train:
  "run_cuda demo_ext demo_trainer demo_rays 2 (bind_args demo_kwargs)
     = Inr (demo_trainer\<lparr> step_counter := (7, 2) # (7, 2) # replicate 14 (0, 0), local_step := 2 \<rparr>,
            demo_results(''weights_sum_rgb'' \<mapsto> Scalars [2] [Fin (3 / 4), Fin 0],
                         ''weights_sum_semantic'' \<mapsto> Scalars [2] [Fin (3 / 4), Fin 0]))"
proof -
  have "Map.empty
          (''weights_sum_rgb'' \<mapsto> Scalars [2] [Fin (3 / 4), Fin 0],
           ''depth'' \<mapsto> Scalars [1, 2] [Fin (3 / 4), NaN],
           ''image'' \<mapsto> Colors [1, 2] [(1 / 2, 3 / 4, 1 / 4), (1, 1, 1)],
           ''weights_sum_semantic'' \<mapsto> Scalars [2] [Fin (3 / 4), Fin 0],
           ''depth'' \<mapsto> Scalars [1, 2] [Fin (1 / 4), NaN],
           ''semantic'' \<mapsto> Classes [1, 2, 2] [[3 / 4, 0], [0, 0]])
        = demo_results(''weights_sum_rgb'' \<mapsto> Scalars [2] [Fin (3 / 4), Fin 0],
                       ''weights_sum_semantic'' \<mapsto> Scalars [2] [Fin (3 / 4), Fin 0])"
    unfolding demo_results_def by (rule ext) simp
  then show ?thesis
    by (simp only: run_cuda_def demo_rays_rgb_train demo_rays_semantic_train sum.case prod.case)
qed

text \<open>The RGB pass with a \<^verbatim>\<open>bg_color\<close> argument, and with the background model.\<close>

lemma demo_rays_rgb_bg_color:
  "rays_rgb demo_ext demo_renderer res demo_rays 2
       (bind_args (demo_kwargs\<lparr> kw_bg_color := Some (BgRGB (1 / 2, 0, 1)) \<rparr>))
     = Inr (demo_renderer,
            res(''depth'' \<mapsto> Scalars [1, 2] [Fin (3 / 4), NaN],
                ''image'' \<mapsto> Colors [1, 2] [(3 / 8, 1 / 2, 1 / 4), (1 / 2, 0, 1)]))"
  by (simp add: rays_rgb_def rgb_accumulate_def pass_near_far_def demo_renderer_def
        demo_rays_def demo_kwargs_def bind_args_def demo_ext_def background_color_def
        march_loop.simps march_round_def rgb_round_def demo_composite_def n_step_of_def
        mix_background_def mix1_def normalize_depth_def fdiv_def Let_def upt_rec)

lemma demo_rays_rgb_bg_model:
  "rays_rgb demo_ext (demo_renderer\<lparr> bg_radius := 2 \<rparr>) res demo_rays 2 (bind_args demo_kwargs)
     = Inr (demo_renderer\<lparr> bg_radius := 2 \<rparr>,
            res(''depth'' \<mapsto> Scalars [1, 2] [Fin (3 / 4), NaN],
                ''image'' \<mapsto> Colors [1, 2] [(1 / 4, 1 / 2, 0), (1 / 5, 2 / 5, 3 / 5)]))"
  by (simp add: rays_rgb_def rgb_accumulate_def pass_near_far_def demo_renderer_def
        demo_rays_def demo_kwargs_def bind_args_def demo_ext_def background_color_def
        march_loop.simps march_round_def rgb_round_def demo_composite_def n_step_of_def
        mix_background_def mix1_def normalize_depth_def fdiv_def Let_def upt_rec)

section \<open>Depth normalisation\<close>

text \<open>
  All four normalisation sites (lines 167, 219, 265, 318) are \<open>normalize_depth\<close>: one
  unguarded division per ray.
\<close>

lemma normalize_depth_length: "length (normalize_depth depth nears fars N) = N"
  by (simp add: normalize_depth_def)

lemma normalize_depth_nth:
  "i < N \<Longrightarrow> normalize_depth depth nears fars N ! i
                 = fdiv (max (depth ! i - nears ! i) 0) (fars ! i - nears ! i)"
  by (simp add: normalize_depth_def)

lemma fdiv_equal_bounds:
  "fdiv (max (d - near) 0) (near - near) = (if d \<le> near then NaN else PInf)"
  by (simp add: fdiv_def max_def)

lemma fdiv_unit_interval:
  "near < far \<Longrightarrow> d \<le> far \<Longrightarrow> \<exists>x. fdiv (max (d - near) 0) (far - near) = Fin x \<and> 0 \<le> x \<and> x \<le> 1"
  by (simp add: fdiv_def max_def divide_le_eq)

text \<open>
  The spec's compositor keeps the accumulated depth at or below \<open>far\<close>: for densities
  \<open>\<ge> 0\<close>, step lengths \<open>> 0\<close> and sample distances up to \<open>far \<ge> 0\<close>, the weights sum to
  at most 1 and the depth sum is at most \<open>far\<close> times the weight sum.
\<close>

lemma composite_spec_invariant:
  "\<forall>(sigma, delta, t, ch) \<in> set smp. 0 \<le> sigma \<and> 0 < delta \<and> t \<le> far \<Longrightarrow>
   0 \<le> ca_T a \<Longrightarrow> ca_weight_sum a + ca_T a = 1 \<Longrightarrow> ca_depth_sum a \<le> far * ca_weight_sum a \<Longrightarrow>
     0 \<le> ca_T (composite_spec thresh smp a)
   \<and> ca_weight_sum (composite_spec thresh smp a) + ca_T (composite_spec thresh smp a) = 1
   \<and> ca_depth_sum (composite_spec thresh smp a) \<le> far * ca_weight_sum (composite_spec thresh smp a)"
proof (induction smp arbitrary: a)
  case Nil
  then show ?case by simp
next
  case (Cons x rest)
  obtain sigma delta t ch where x: "x = (sigma, delta, t, ch)"
    by (cases x) auto
  show ?case
  proof (cases "1 - thresh < ca_weight_sum a")
    case True
    with Cons.prems show ?thesis by (simp add: x)
  next
    case False
    define alpha where "alpha = 1 - exp (- sigma * delta)"
    define weight where "weight = alpha * ca_T a"
    define a' where "a' = \<lparr> ca_T = ca_T a * (1 - alpha),
               ca_weight_sum = ca_weight_sum a + weight,
               ca_depth_sum = ca_depth_sum a + weight * t,
               ca_channel_sum = map (\<lambda>(s, c). s + weight * c) (zip (ca_channel_sum a) ch) \<rparr>"
    from Cons.prems(1) have sd: "0 \<le> sigma" "0 < delta" "t \<le> far"
      and rest: "\<forall>(sigma, delta, t, ch) \<in> set rest. 0 \<le> sigma \<and> 0 < delta \<and> t \<le> far"
      by (auto simp: x)
    have "0 \<le> sigma * delta" using sd by simp
    then have al: "0 \<le> alpha" "alpha \<le> 1"
      by (simp_all add: alpha_def)
    have w: "0 \<le> weight"
      using al Cons.prems(2) by (simp add: weight_def)
    have "weight * t \<le> weight * far"
      using sd(3) w by (rule mult_left_mono)
    then have d: "ca_depth_sum a' \<le> far * ca_weight_sum a'"
      using Cons.prems(4) by (simp add: a'_def algebra_simps)
    have T: "0 \<le> ca_T a'"
      using al Cons.prems(2) by (simp add: a'_def)
    have s: "ca_weight_sum a' + ca_T a' = 1"
      using Cons.prems(3) by (simp add: a'_def weight_def algebra_simps)
    have eq: "composite_spec thresh (x # rest) a = composite_spec thresh rest a'"
      using False by (simp add: x Let_def a'_def weight_def alpha_def)
    show ?thesis
      unfolding eq by (rule Cons.IH [OF rest T s d])
  qed
qed

lemma composite_spec_depth_le_far:
  assumes "\<forall>(sigma, delta, t, ch) \<in> set smp. 0 \<le> sigma \<and> 0 < delta \<and> t \<le> far" and "0 \<le> far"
  shows "ca_depth_sum (composite_spec thresh smp
            \<lparr> ca_T = 1, ca_weight_sum = 0, ca_depth_sum = 0, ca_channel_sum = replicate K 0 \<rparr>) \<le> far"
proof -
  let ?a = "composite_spec thresh smp
            \<lparr> ca_T = 1, ca_weight_sum = 0, ca_depth_sum = 0, ca_channel_sum = replicate K 0 \<rparr>"
  from composite_spec_invariant [OF assms(1), of _ thresh]
  have i: "0 \<le> ca_T ?a" "ca_weight_sum ?a + ca_T ?a = 1" "ca_depth_sum ?a \<le> far * ca_weight_sum ?a"
    by simp_all
  then have "ca_weight_sum ?a \<le> 1" by simp
  then have "far * ca_weight_sum ?a \<le> far * 1"
    using assms(2) by (rule mult_left_mono)
  with i(3) show ?thesis by simp
qed

text \<open>
  Claim C1, amended. \<^verbatim>\<open>render\<close> returns the depth of the semantic pass, which runs on
  the renderer as the RGB pass left it. For every ray \<open>i\<close> the depth returned is
  \<open>clamp(depth_sum - near, 0) / (far - near)\<close>, where \<open>depth_sum\<close> is the accumulated
  depth of the semantic pass, computed by an unguarded division. When \<open>far = near\<close> it
  is not 0: it is NaN when the accumulated depth is at most \<open>near\<close> (in particular for a
  ray that accumulated nothing) and \<open>+infinity\<close> otherwise. It is a number in \<open>[0, 1]\<close>,
  in the exact arithmetic of the model, whenever \<open>far > near\<close>, \<open>far \<ge> 0\<close> and the
  accumulated depth is the depth sum of the spec's compositor over samples with density
  \<open>\<ge> 0\<close>, step length \<open>> 0\<close> and distance \<open>\<le> far\<close>. The staged path of a renderer
  without \<^verbatim>\<open>cuda_ray\<close> is a case of its own: it returns only for a batch of no rays
  (lemma \<open>render_staged_returns_no_rays\<close>).
\<close>

theorem render_depth_normalized:
  "render E st rays K staged max_ray_batch kw = Inr (st', res) \<Longrightarrow> staged \<longrightarrow> cuda_ray st \<Longrightarrow>
     \<exists>st1 res1 ws dsum sem out.
        rays_rgb E st Map.empty rays K (bind_args kw) = Inr (st1, res1)
      \<and> semantic_accumulate E st1 (rays_o rays) (rays_d rays)
          (fst (pass_near_far E st1 rays)) (snd (pass_near_far E st1 rays)) K (bind_args kw)
          = Inr (st', ws, dsum, sem)
      \<and> res ''depth'' = Some (Scalars [rb_B rays, rb_N rays] out)
      \<and> length out = length (rays_o rays)
      \<and> (\<forall>i < length (rays_o rays).
           let near = fst (pass_near_far E st1 rays) ! i;
               far = snd (pass_near_far E st1 rays) ! i
           in out ! i = fdiv (max (dsum ! i - near) 0) (far - near)
            \<and> (far = near \<longrightarrow> out ! i = (if dsum ! i \<le> near then NaN else PInf))
            \<and> (near < far \<and> 0 \<le> far
                 \<and> (\<exists>smp. (\<forall>(sigma, delta, t, ch) \<in> set smp. 0 \<le> sigma \<and> 0 < delta \<and> t \<le> far)
                        \<and> dsum ! i = ca_depth_sum (composite_spec (T_thresh (bind_args kw)) smp
                             \<lparr> ca_T = 1, ca_weight_sum = 0, ca_depth_sum = 0,
                               ca_channel_sum = replicate K 0 \<rparr>))
               \<longrightarrow> (\<exists>d. out ! i = Fin d \<and> 0 \<le> d \<and> d \<le> 1)))"
proof -
  assume r: "render E st rays K staged max_ray_batch kw = Inr (st', res)"
    and unstaged: "staged \<longrightarrow> cuda_ray st"
  let ?args = "bind_args kw"
  let ?N = "length (rays_o rays)"
  from r unstaged have "run_cuda E st rays K ?args = Inr (st', res)"
    by (auto simp: render_def call_run_cuda_def Let_def)
  then obtain st1 res1 where
    rgb: "rays_rgb E st Map.empty rays K ?args = Inr (st1, res1)"
    and sem: "rays_semantic E st1 res1 rays K ?args = Inr (st', res)"
    by (auto simp: run_cuda_def split: sum.splits)
  let ?nears = "fst (pass_near_far E st1 rays)"
  let ?fars = "snd (pass_near_far E st1 rays)"
  let ?out = "\<lambda>dsum. normalize_depth dsum ?nears ?fars ?N"
  from sem obtain ws dsum sm where
    acc: "semantic_accumulate E st1 (rays_o rays) (rays_d rays) ?nears ?fars K ?args
            = Inr (st', ws, dsum, sm)"
    and dep: "res ''depth'' = Some (Scalars [rb_B rays, rb_N rays] (?out dsum))"
    by (auto simp: rays_semantic_def Let_def split: prod.splits sum.splits if_splits)
  have "let near = ?nears ! i; far = ?fars ! i
        in ?out dsum ! i = fdiv (max (dsum ! i - near) 0) (far - near)
         \<and> (far = near \<longrightarrow> ?out dsum ! i = (if dsum ! i \<le> near then NaN else PInf))
         \<and> (near < far \<and> 0 \<le> far
              \<and> (\<exists>smp. (\<forall>(sigma, delta, t, ch) \<in> set smp. 0 \<le> sigma \<and> 0 < delta \<and> t \<le> far)
                     \<and> dsum ! i = ca_depth_sum (composite_spec (T_thresh ?args) smp
                          \<lparr> ca_T = 1, ca_weight_sum = 0, ca_depth_sum = 0,
                            ca_channel_sum = replicate K 0 \<rparr>))
            \<longrightarrow> (\<exists>d. ?out dsum ! i = Fin d \<and> 0 \<le> d \<and> d \<le> 1))"
    if i: "i < ?N" for i
  proof -
    have n: "?out dsum ! i = fdiv (max (dsum ! i - ?nears ! i) 0) (?fars ! i - ?nears ! i)"
      using i by (rule normalize_depth_nth)
    have z: "?out dsum ! i = (if dsum ! i \<le> ?nears ! i then NaN else PInf)"
      if "?fars ! i = ?nears ! i"
      unfolding n that by (rule fdiv_equal_bounds)
    have u: "\<exists>d. ?out dsum ! i = Fin d \<and> 0 \<le> d \<and> d \<le> 1"
      if lt: "?nears ! i < ?fars ! i" and pos: "0 \<le> ?fars ! i"
        and smp: "\<forall>(sigma, delta, t, ch) \<in> set smp. 0 \<le> sigma \<and> 0 < delta \<and> t \<le> ?fars ! i"
        and d: "dsum ! i = ca_depth_sum (composite_spec (T_thresh ?args) smp
                          \<lparr> ca_T = 1, ca_weight_sum = 0, ca_depth_sum = 0,
                            ca_channel_sum = replicate K 0 \<rparr>)"
      for smp
    proof -
      have "dsum ! i \<le> ?fars ! i"
        unfolding d by (rule composite_spec_depth_le_far [OF smp pos])
      with lt show ?thesis
        unfolding n by (rule fdiv_unit_interval)
    qed
    show ?thesis
      unfolding Let_def using n z u by blast
  qed
  then have rays: "\<forall>i < ?N.
        let near = ?nears ! i; far = ?fars ! i
        in ?out dsum ! i = fdiv (max (dsum ! i - near) 0) (far - near)
         \<and> (far = near \<longrightarrow> ?out dsum ! i = (if dsum ! i \<le> near then NaN else PInf))
         \<and> (near < far \<and> 0 \<le> far
              \<and> (\<exists>smp. (\<forall>(sigma, delta, t, ch) \<in> set smp. 0 \<le> sigma \<and> 0 < delta \<and> t \<le> far)
                     \<and> dsum ! i = ca_depth_sum (composite_spec (T_thresh ?args) smp
                          \<lparr> ca_T = 1, ca_weight_sum = 0, ca_depth_sum = 0,
                            ca_channel_sum = replicate K 0 \<rparr>))
            \<longrightarrow> (\<exists>d. ?out dsum ! i = Fin d \<and> 0 \<le> d \<and> d \<le> 1))"
    by blast
  have len: "length (?out dsum) = ?N"
    by (rule normalize_depth_length)
  from rgb acc dep len rays show ?thesis
    by (intro exI conjI)
qed

text \<open>
  On the small scene: the first ray has the interval from 2 to 6 and the accumulated
  depth 3, which is what the spec's compositor accumulates over one sample of density
  \<open>ln 4\<close> and step length 1 at distance 4; its depth is \<open>1 / 4\<close>. The second ray has
  \<open>far = near = 4\<close> and accumulated nothing; its depth is NaN.
\<close>

lemma demo_pass_near_far:
  "pass_near_far demo_ext st demo_rays = ([2, 4], [6, 4])"
  by (simp add: pass_near_far_def demo_ext_def)

lemma demo_semantic_accumulate:
  "semantic_accumulate demo_ext demo_renderer (rays_o demo_rays) (rays_d demo_rays) [2, 4] [6, 4] 2
       (bind_args demo_kwargs)
     = Inr (demo_renderer, [3 / 4, 0], [3, 0], [[3 / 4, 0], [0, 0]])"
  by (simp add: semantic_accumulate_def demo_renderer_def demo_rays_def demo_kwargs_def
        bind_args_def demo_ext_def march_loop.simps march_round_def semantic_round_def
        demo_composite_def n_step_of_def Let_def upt_rec)

lemma demo_composite_spec:
  "composite_spec (T_thresh (bind_args demo_kwargs)) [(ln 4, 1, 4, [1, 0])]
       \<lparr> ca_T = 1, ca_weight_sum = 0, ca_depth_sum = 0, ca_channel_sum = replicate 2 0 \<rparr>
     = \<lparr> ca_T = 1 / 4, ca_weight_sum = 3 / 4, ca_depth_sum = 3, ca_channel_sum = [3 / 4, 0] \<rparr>"
  by (simp add: bind_args_def demo_kwargs_def Let_def exp_minus numeral_2_eq_2)

theorem render_depth_normalized_witness:
  "render demo_ext demo_renderer demo_rays 2 False 4096 demo_kwargs
     = Inr (demo_renderer, demo_results)
   \<and> semantic_accumulate demo_ext demo_renderer (rays_o demo_rays) (rays_d demo_rays) [2, 4] [6, 4] 2
         (bind_args demo_kwargs)
       = Inr (demo_renderer, [3 / 4, 0], [3, 0], [[3 / 4, 0], [0, 0]])
   \<and> ca_depth_sum (composite_spec (T_thresh (bind_args demo_kwargs)) [(ln 4, 1, 4, [1, 0])]
         \<lparr> ca_T = 1, ca_weight_sum = 0, ca_depth_sum = 0, ca_channel_sum = replicate 2 0 \<rparr>) = 3
   \<and> (\<exists>out. demo_results ''depth'' = Some (Scalars [1, 2] out)
          \<and> length out = 2
          \<and> out ! 0 = fdiv (max (3 - 2) 0) (6 - 2)
          \<and> (\<exists>d. out ! 0 = Fin d \<and> 0 \<le> d \<and> d \<le> 1)
          \<and> out ! 1 = fdiv (max (0 - 4) 0) (4 - 4)
          \<and> out ! 1 = NaN)"
proof -
  from render_depth_normalized [OF demo_render]
  obtain st1 res1 ws dsum sem out where
    rgb: "rays_rgb demo_ext demo_renderer Map.empty demo_rays 2 (bind_args demo_kwargs)
            = Inr (st1, res1)"
    and acc: "semantic_accumulate demo_ext st1 (rays_o demo_rays) (rays_d demo_rays)
                (fst (pass_near_far demo_ext st1 demo_rays))
                (snd (pass_near_far demo_ext st1 demo_rays)) 2 (bind_args demo_kwargs)
              = Inr (demo_renderer, ws, dsum, sem)"
    and dep: "demo_results ''depth'' = Some (Scalars [rb_B demo_rays, rb_N demo_rays] out)"
    and len: "length out = length (rays_o demo_rays)"
    and rays: "\<forall>i < length (rays_o demo_rays).
           let near = fst (pass_near_far demo_ext st1 demo_rays) ! i;
               far = snd (pass_near_far demo_ext st1 demo_rays) ! i
           in out ! i = fdiv (max (dsum ! i - near) 0) (far - near)
            \<and> (far = near \<longrightarrow> out ! i = (if dsum ! i \<le> near then NaN else PInf))
            \<and> (near < far \<and> 0 \<le> far
                 \<and> (\<exists>smp. (\<forall>(sigma, delta, t, ch) \<in> set smp. 0 \<le> sigma \<and> 0 < delta \<and> t \<le> far)
                        \<and> dsum ! i = ca_depth_sum (composite_spec (T_thresh (bind_args demo_kwargs)) smp
                             \<lparr> ca_T = 1, ca_weight_sum = 0, ca_depth_sum = 0,
                               ca_channel_sum = replicate 2 0 \<rparr>))
               \<longrightarrow> (\<exists>d. out ! i = Fin d \<and> 0 \<le> d \<and> d \<le> 1))"
    by auto
  from rgb have st1: "st1 = demo_renderer"
    by (simp add: demo_rays_rgb)
  from acc have dsum: "dsum = [3, 0]"
    by (simp add: st1 demo_pass_near_far demo_semantic_accumulate)
  have smp: "(\<forall>(sigma, delta, t, ch) \<in> set [(ln 4 :: real, 1 :: real, 4 :: real, [1 :: real, 0])].
                0 \<le> sigma \<and> 0 < delta \<and> t \<le> 6)
             \<and> dsum ! 0 = ca_depth_sum (composite_spec (T_thresh (bind_args demo_kwargs))
                  [(ln 4, 1, 4, [1, 0])]
                  \<lparr> ca_T = 1, ca_weight_sum = 0, ca_depth_sum = 0, ca_channel_sum = replicate 2 0 \<rparr>)"
    by (simp only: demo_composite_spec) (simp add: dsum)
  have i0: "(0 :: nat) < length (rays_o demo_rays)" and i1: "(1 :: nat) < length (rays_o demo_rays)"
    by (simp_all add: demo_rays_def)
  note q0 = rays [THEN spec, THEN mp, OF i0,
                  unfolded Let_def demo_pass_near_far fst_conv snd_conv nth_Cons_0]
  from q0 [THEN conjunct1] have r0: "out ! 0 = fdiv (max (3 - 2) 0) (6 - 2)"
    by (simp add: dsum)
  have "(2 :: real) < 6" and "(0 :: real) \<le> 6"
    by simp_all
  with q0 [THEN conjunct2, THEN conjunct2] smp
  have u0: "\<exists>d. out ! 0 = Fin d \<and> 0 \<le> d \<and> d \<le> 1"
    by blast
  note q1 = rays [THEN spec, THEN mp, OF i1, unfolded Let_def demo_pass_near_far fst_conv snd_conv]
  from q1 [THEN conjunct1] have r1: "out ! 1 = fdiv (max (0 - 4) 0) (4 - 4)"
    by (simp add: dsum)
  from q1 [THEN conjunct2, THEN conjunct1] have n1: "out ! 1 = NaN"
    by (simp add: dsum)
  from dep have dep': "demo_results ''depth'' = Some (Scalars [1, 2] out)"
    by (simp add: demo_rays_def)
  from len have len': "length out = 2"
    by (simp add: demo_rays_def)
  have cs: "ca_depth_sum (composite_spec (T_thresh (bind_args demo_kwargs)) [(ln 4, 1, 4, [1, 0])]
         \<lparr> ca_T = 1, ca_weight_sum = 0, ca_depth_sum = 0, ca_channel_sum = replicate 2 0 \<rparr>) = 3"
    by (simp only: demo_composite_spec) simp
  from dep' len' r0 u0 r1 n1
  have "\<exists>out. demo_results ''depth'' = Some (Scalars [1, 2] out)
          \<and> length out = 2
          \<and> out ! 0 = fdiv (max (3 - 2) 0) (6 - 2)
          \<and> (\<exists>d. out ! 0 = Fin d \<and> 0 \<le> d \<and> d \<le> 1)
          \<and> out ! 1 = fdiv (max (0 - 4) 0) (4 - 4)
          \<and> out ! 1 = NaN"
    by blast
  with demo_render demo_semantic_accumulate cs show ?thesis
    by (intro conjI)
qed

text \<open>
  The claim as stated fails on the small scene: its second ray has \<open>far = near\<close>, and
  the depth that \<^verbatim>\<open>render\<close> returns for it is NaN, not 0.
\<close>

theorem render_depth_nan_counterexample:
  "render demo_ext demo_renderer demo_rays 2 False 4096 demo_kwargs
     = Inr (demo_renderer, demo_results)
   \<and> snd (pass_near_far demo_ext demo_renderer demo_rays) ! 1
       = fst (pass_near_far demo_ext demo_renderer demo_rays) ! 1
   \<and> demo_results ''depth'' = Some (Scalars [1, 2] [Fin (1 / 4), NaN])
   \<and> NaN \<noteq> Fin 0"
proof -
  have "snd (pass_near_far demo_ext demo_renderer demo_rays) ! 1
          = fst (pass_near_far demo_ext demo_renderer demo_rays) ! 1"
    by (simp add: pass_near_far_def demo_ext_def)
  moreover have "demo_results ''depth'' = Some (Scalars [1, 2] [Fin (1 / 4), NaN])"
    by (simp add: demo_results_def)
  ultimately show ?thesis
    using demo_render by simp
qed

text \<open>
  The bound needs \<open>far \<ge> 0\<close>: a ray with the interval from \<open>-2\<close> to \<open>-1\<close> and no sample
  accumulates the depth 0, above its \<open>far\<close>, and its normalised depth is 2.
\<close>

lemma depth_above_one_negative_far:
  "normalize_depth
     [ca_depth_sum (composite_spec thresh []
        \<lparr> ca_T = 1, ca_weight_sum = 0, ca_depth_sum = 0, ca_channel_sum = replicate K 0 \<rparr>)]
     [- 2] [- 1] 1 = [Fin 2]"
  by (simp add: normalize_depth_def fdiv_def)

section \<open>The inference marcher\<close>

lemma n_step_pos: "1 \<le> n_step_of N n"
  by (simp add: n_step_of_def)

lemma march_round_step:
  "ms_step (march_round rnd N s) = ms_step s + n_step_of N (length (ms_alive s))"
  by (simp add: march_round_def Let_def)

text \<open>
  Claim C8. In a round of the inference marcher with \<open>N\<close> rays in total and
  \<open>n_alive > 0\<close> rays alive, the step count is \<open>clamp(N // n_alive, 1, 8)\<close>, computed as
  \<open>max(min(N // n_alive, 8), 1)\<close>: the kernels of the round get this count, and the
  loop's counter advances by it.
\<close>

theorem round_n_step_clamp:
  "ms_alive s \<noteq> [] \<Longrightarrow>
     (let n_alive = length (ms_alive s);
          n_step = clamp_spec (int N div int n_alive) 1 8;
          s' = rnd n_alive n_step (ms_step s = 0) s
      in n_step_of N n_alive = n_step
       \<and> n_step = max (min (int N div int n_alive) 8) 1
       \<and> march_round rnd N s =
           s'\<lparr> ms_alive := filter (\<lambda>r. 0 \<le> r) (ms_alive s'), ms_step := ms_step s + n_step \<rparr>)"
  by (simp add: Let_def n_step_of_def clamp_spec_def march_round_def max_def min_def)

theorem round_n_step_clamp_witness:
  "march_round (\<lambda>n k f s. s\<lparr> ms_alive := [0, - 1, 2] \<rparr>) 7
      \<lparr> ms_step = 0, ms_alive = [0, 1, 2], ms_t = [], ms_weights = [], ms_depth = [],
        ms_image = ([] :: vec3 list) \<rparr>
    = \<lparr> ms_step = 2, ms_alive = [0, 2], ms_t = [], ms_weights = [], ms_depth = [],
        ms_image = [] \<rparr>
   \<and> n_step_of 7 3 = 2 \<and> clamp_spec (7 div 3) 1 8 = 2"
  using round_n_step_clamp
    [of "\<lparr> ms_step = 0, ms_alive = [0, 1, 2], ms_t = [], ms_weights = [], ms_depth = [],
           ms_image = ([] :: vec3 list) \<rparr>" 7 "\<lambda>n k f s. s\<lparr> ms_alive := [0, - 1, 2] \<rparr>"]
  by (simp add: Let_def clamp_spec_def n_step_of_def)

text \<open>
  Claim C9. The round loop of the inference marcher terminates from every state, whatever
  the kernels do: it has a finite run, of at most \<open>max_steps - step\<close> rounds (every round
  advances the counter by \<open>n_step \<ge> 1\<close>), and when it returns, no ray is alive or the
  counter has reached \<open>max_steps\<close>. Both passes (lines 189-215 and 288-313) are this loop,
  started at \<open>step = 0\<close>.
\<close>

theorem march_loop_terminates:
  "\<exists>k. march_exec rnd has_buffers N msteps s k (march_loop rnd has_buffers N msteps s)
       \<and> int k \<le> max 0 (msteps - ms_step s)
       \<and> (\<forall>s'. march_loop rnd has_buffers N msteps s = Inr s'
             \<longrightarrow> ms_alive s' = [] \<or> msteps \<le> ms_step s')"
proof (induction rnd has_buffers N msteps s rule: march_loop.induct)
  case (1 rnd has_buffers N msteps s)
  consider (cap) "\<not> ms_step s < msteps"
    | (empty) "ms_step s < msteps" "ms_alive s = []"
    | (raise) "ms_step s < msteps" "ms_alive s \<noteq> []" "\<not> has_buffers"
    | (go) "ms_step s < msteps" "ms_alive s \<noteq> []" "has_buffers"
    by blast
  then show ?case
  proof cases
    case cap
    then have eq: "march_loop rnd has_buffers N msteps s = Inr s"
      by (subst march_loop.simps) simp
    show ?thesis unfolding eq using cap march_exec.exit_cap [of s msteps rnd has_buffers N]
      by (intro exI [of _ 0]) simp
  next
    case empty
    then have eq: "march_loop rnd has_buffers N msteps s = Inr s"
      by (subst march_loop.simps) simp
    show ?thesis unfolding eq using empty march_exec.exit_empty [of s msteps rnd has_buffers N]
      by (intro exI [of _ 0]) simp
  next
    case raise
    then have eq: "march_loop rnd has_buffers N msteps s = Inl AttributeError"
      by (subst march_loop.simps) simp
    show ?thesis unfolding eq using raise march_exec.exit_raise [of s msteps has_buffers rnd N]
      by (intro exI [of _ 0]) simp
  next
    case go
    then have eq: "march_loop rnd has_buffers N msteps s
        = march_loop rnd has_buffers N msteps (march_round rnd N s)"
      by (subst march_loop.simps) simp
    from go have "\<not> length (ms_alive s) \<le> 0" by simp
    from "1.IH" [OF go(1) this] go(3)
    obtain k where k: "march_exec rnd has_buffers N msteps (march_round rnd N s) k
           (march_loop rnd has_buffers N msteps (march_round rnd N s))"
       "int k \<le> max 0 (msteps - ms_step (march_round rnd N s))"
       "\<forall>s'. march_loop rnd has_buffers N msteps (march_round rnd N s) = Inr s'
             \<longrightarrow> ms_alive s' = [] \<or> msteps \<le> ms_step s'"
      by blast
    have "march_exec rnd has_buffers N msteps s (Suc k) (march_loop rnd has_buffers N msteps s)"
      unfolding eq using go k(1) by (rule march_exec.round)
    moreover have "int (Suc k) \<le> max 0 (msteps - ms_step s)"
      using k(2) go(1) n_step_pos [of N "length (ms_alive s)"] by (simp add: march_round_step)
    ultimately show ?thesis using k(3) unfolding eq by blast
  qed
qed

text \<open>A ray that the kernels never end: the loop stops at the cap, after 3 rounds.\<close>

theorem march_loop_terminates_witness:
  "march_loop (\<lambda>n k f s. s) True 1 3
      \<lparr> ms_step = 0, ms_alive = [0], ms_t = [1], ms_weights = [0], ms_depth = [0],
        ms_image = [(0, 0, 0) :: vec3] \<rparr>
    = Inr \<lparr> ms_step = 3, ms_alive = [0], ms_t = [1], ms_weights = [0], ms_depth = [0],
            ms_image = [(0, 0, 0)] \<rparr>
   \<and> (\<exists>k. march_exec (\<lambda>n k f s. s) True 1 3
            \<lparr> ms_step = 0, ms_alive = [0], ms_t = [1], ms_weights = [0], ms_depth = [0],
              ms_image = [(0, 0, 0) :: vec3] \<rparr> k
            (Inr \<lparr> ms_step = 3, ms_alive = [0], ms_t = [1], ms_weights = [0], ms_depth = [0],
                   ms_image = [(0, 0, 0)] \<rparr>)
          \<and> k \<le> 3)"
  using march_loop_terminates
    [of "\<lambda>n k f s. s" True 1 3
        "\<lparr> ms_step = 0, ms_alive = [0], ms_t = [1], ms_weights = [0], ms_depth = [0],
           ms_image = [(0, 0, 0) :: vec3] \<rparr>"]
  by (simp add: march_loop.simps march_round_def n_step_of_def Let_def)

section \<open>What the passes return\<close>

text \<open>
  Claim C4. For every ray of the RGB pass, in training and in inference, every channel of
  the image returned is \<open>channel_sum + (1 - weight_sum) * background_value\<close>, where the
  channel sum and the weight sum are the pass's accumulators. The background value of
  ray \<open>i\<close> is the background model's colour for the ray when \<open>bg_radius > 0\<close>; otherwise
  it is the \<^verbatim>\<open>bg_color\<close> argument (a number for all channels, one colour for all rays, or
  one colour per ray); and it is 1 in every channel when no background model is
  configured (\<open>bg_radius \<le> 0\<close>) and no \<^verbatim>\<open>bg_color\<close> is given.
\<close>

theorem rays_rgb_image:
  "rays_rgb E st res rays K args = Inr (st', res') \<Longrightarrow>
     \<exists>ws depth img out.
        rgb_accumulate E st (rays_o rays) (rays_d rays)
          (fst (pass_near_far E st rays)) (snd (pass_near_far E st rays)) args
          = Inr (st', ws, depth, img)
      \<and> res' ''image'' = Some (Colors [rb_B rays, rb_N rays] out)
      \<and> length out = length (rays_o rays)
      \<and> (\<forall>i < length (rays_o rays). \<exists>br bg bb.
            out ! i = (fst (img ! i) + (1 - ws ! i) * br,
                       fst (snd (img ! i)) + (1 - ws ! i) * bg,
                       snd (snd (img ! i)) + (1 - ws ! i) * bb)
          \<and> (br, bg, bb) =
              (if 0 < bg_radius st
               then (let rows = background E
                                  (sph_from_ray E (rays_o rays) (rays_d rays) (bg_radius st))
                                  (rays_d rays)
                     in if length rows = 1 then rows ! 0 else rows ! i)
               else case bg_color args of
                      None \<Rightarrow> (1, 1, 1)
                    | Some (BgScalar c) \<Rightarrow> (c, c, c)
                    | Some (BgRGB v) \<Rightarrow> v
                    | Some (BgPerRay rows) \<Rightarrow> if length rows = 1 then rows ! 0 else rows ! i))"
proof -
  assume r: "rays_rgb E st res rays K args = Inr (st', res')"
  let ?N = "length (rays_o rays)"
  let ?bg = "background_color E st (rays_o rays) (rays_d rays) (bg_color args)"
  from r obtain ws depth img out where
    acc: "rgb_accumulate E st (rays_o rays) (rays_d rays)
            (fst (pass_near_far E st rays)) (snd (pass_near_far E st rays)) args
          = Inr (st', ws, depth, img)"
    and mix: "mix_background img ws ?bg ?N = Inr out"
    and im: "res' ''image'' = Some (Colors [rb_B rays, rb_N rays] out)"
    by (auto simp: rays_rgb_def Let_def split: prod.splits sum.splits if_splits)
  from mix have out: "out = map (\<lambda>i. mix1 (img ! i) (ws ! i) (bg_at ?bg i)) [0..<?N]"
    by (auto simp: mix_background_def split: if_splits)
  have px: "mix1 px w (br, bg, bb)
              = (fst px + (1 - w) * br, fst (snd px) + (1 - w) * bg, snd (snd px) + (1 - w) * bb)"
    for px w br bg bb
    by (cases px) (simp add: mix1_def)
  have bgv: "bg_at ?bg i =
              (if 0 < bg_radius st
               then (let rows = background E
                                  (sph_from_ray E (rays_o rays) (rays_d rays) (bg_radius st))
                                  (rays_d rays)
                     in if length rows = 1 then rows ! 0 else rows ! i)
               else case bg_color args of
                      None \<Rightarrow> (1, 1, 1)
                    | Some (BgScalar c) \<Rightarrow> (c, c, c)
                    | Some (BgRGB v) \<Rightarrow> v
                    | Some (BgPerRay rows) \<Rightarrow> if length rows = 1 then rows ! 0 else rows ! i)"
    for i
    by (simp add: background_color_def Let_def split: option.splits bg_color.splits)
  have "\<exists>br bg bb.
            out ! i = (fst (img ! i) + (1 - ws ! i) * br,
                       fst (snd (img ! i)) + (1 - ws ! i) * bg,
                       snd (snd (img ! i)) + (1 - ws ! i) * bb)
          \<and> (br, bg, bb) = bg_at ?bg i" if "i < ?N" for i
  proof -
    obtain br bg bb where b: "bg_at ?bg i = (br, bg, bb)"
      by (cases "bg_at ?bg i") auto
    from that have "out ! i = mix1 (img ! i) (ws ! i) (br, bg, bb)"
      by (simp add: out b)
    then show ?thesis
      using b by (auto simp: px)
  qed
  then show ?thesis
    using acc im out unfolding bgv by auto
qed

theorem rays_rgb_image_witness:
  "rays_rgb demo_ext demo_renderer Map.empty demo_rays 2 (bind_args demo_kwargs)
     = Inr (demo_renderer,
            [''depth'' \<mapsto> Scalars [1, 2] [Fin (3 / 4), NaN],
             ''image'' \<mapsto> Colors [1, 2]
                [(1 / 4 + (1 - 3 / 4) * 1, 1 / 2 + (1 - 3 / 4) * 1, 0 + (1 - 3 / 4) * 1),
                 (0 + (1 - 0) * 1, 0 + (1 - 0) * 1, 0 + (1 - 0) * 1)]])
   \<and> rgb_accumulate demo_ext demo_renderer (rays_o demo_rays) (rays_d demo_rays) [2, 4] [6, 4]
         (bind_args demo_kwargs)
       = Inr (demo_renderer, [3 / 4, 0], [5, 0], [(1 / 4, 1 / 2, 0), (0, 0, 0)])
   \<and> rays_rgb demo_ext demo_trainer Map.empty demo_rays 2 (bind_args demo_kwargs)
     = Inr (demo_trainer\<lparr> step_counter := (7, 2) # replicate 15 (0, 0), local_step := 1 \<rparr>,
            [''weights_sum_rgb'' \<mapsto> Scalars [2] [Fin (3 / 4), Fin 0],
             ''depth'' \<mapsto> Scalars [1, 2] [Fin (3 / 4), NaN],
             ''image'' \<mapsto> Colors [1, 2]
                [(1 / 4 + (1 - 3 / 4) * 1, 1 / 2 + (1 - 3 / 4) * 1, 0 + (1 - 3 / 4) * 1),
                 (0 + (1 - 0) * 1, 0 + (1 - 0) * 1, 0 + (1 - 0) * 1)]])
   \<and> rays_rgb demo_ext demo_renderer Map.empty demo_rays 2
         (bind_args (demo_kwargs\<lparr> kw_bg_color := Some (BgRGB (1 / 2, 0, 1)) \<rparr>))
     = Inr (demo_renderer,
            [''depth'' \<mapsto> Scalars [1, 2] [Fin (3 / 4), NaN],
             ''image'' \<mapsto> Colors [1, 2]
                [(1 / 4 + (1 - 3 / 4) * (1 / 2), 1 / 2 + (1 - 3 / 4) * 0, 0 + (1 - 3 / 4) * 1),
                 (0 + (1 - 0) * (1 / 2), 0 + (1 - 0) * 0, 0 + (1 - 0) * 1)]])
   \<and> rays_rgb demo_ext (demo_renderer\<lparr> bg_radius := 2 \<rparr>) Map.empty demo_rays 2
         (bind_args demo_kwargs)
     = Inr (demo_renderer\<lparr> bg_radius := 2 \<rparr>,
            [''depth'' \<mapsto> Scalars [1, 2] [Fin (3 / 4), NaN],
             ''image'' \<mapsto> Colors [1, 2]
                [(1 / 4 + (1 - 3 / 4) * 0, 1 / 2 + (1 - 3 / 4) * 0, 0 + (1 - 3 / 4) * 0),
                 (0 + (1 - 0) * (1 / 5), 0 + (1 - 0) * (2 / 5), 0 + (1 - 0) * (3 / 5))]])"
proof -
  have "rgb_accumulate demo_ext demo_renderer (rays_o demo_rays) (rays_d demo_rays) [2, 4] [6, 4]
         (bind_args demo_kwargs)
       = Inr (demo_renderer, [3 / 4, 0], [5, 0], [(1 / 4, 1 / 2, 0), (0, 0, 0)])"
    by (simp add: rgb_accumulate_def demo_renderer_def demo_rays_def demo_kwargs_def
          bind_args_def demo_ext_def march_loop.simps march_round_def rgb_round_def
          demo_composite_def n_step_of_def Let_def upt_rec)
  then show ?thesis
    using rays_rgb_image [OF demo_rays_rgb [of Map.empty]]
          rays_rgb_image [OF demo_rays_rgb_train [of Map.empty]]
          rays_rgb_image [OF demo_rays_rgb_bg_color [of Map.empty]]
          rays_rgb_image [OF demo_rays_rgb_bg_model [of Map.empty]]
    by (simp add: demo_rays_rgb demo_rays_rgb_train demo_rays_rgb_bg_color demo_rays_rgb_bg_model)
qed

lemma rays_semantic_ignores_background:
  "rays_semantic (E\<lparr> background := f \<rparr>) st res rays K (args\<lparr> bg_color := bg \<rparr>)
     = rays_semantic E st res rays K args"
proof -
  have r: "semantic_round (E\<lparr> background := f \<rparr>) st ro rd nears fars K (args\<lparr> bg_color := bg \<rparr>)
             = semantic_round E st ro rd nears fars K args" for ro rd nears fars
    by (intro ext) (simp add: semantic_round_def)
  have t: "train_march (E\<lparr> background := f \<rparr>) st ro rd nears fars (args\<lparr> bg_color := bg \<rparr>)
             = train_march E st ro rd nears fars args" for ro rd nears fars
    by (simp add: train_march_def)
  have a: "semantic_accumulate (E\<lparr> background := f \<rparr>) st ro rd nears fars K (args\<lparr> bg_color := bg \<rparr>)
             = semantic_accumulate E st ro rd nears fars K args" for ro rd nears fars
    by (simp add: semantic_accumulate_def r t)
  show ?thesis
    by (simp add: rays_semantic_def a pass_near_far_def Let_def)
qed

text \<open>
  Claim C3. The semantic output is never background-composited. For every ray, in
  training and in inference, the \<^verbatim>\<open>semantic\<close> entry is the semantic pass's accumulated
  channel sum as the compositor left it, and the whole outcome of the pass is the same
  for every \<^verbatim>\<open>bg_color\<close> argument and every background model: no background term
  enters it, unlike the image of claim C4.
\<close>

theorem rays_semantic_uncomposited:
  "rays_semantic E st res rays K args = Inr (st', res') \<Longrightarrow>
     \<exists>ws depth sem.
        semantic_accumulate E st (rays_o rays) (rays_d rays)
          (fst (pass_near_far E st rays)) (snd (pass_near_far E st rays)) K args
          = Inr (st', ws, depth, sem)
      \<and> res' ''semantic'' = Some (Classes [rb_B rays, rb_N rays, K] sem)
      \<and> (\<forall>f bg. rays_semantic (E\<lparr> background := f \<rparr>) st res rays K (args\<lparr> bg_color := bg \<rparr>)
                   = Inr (st', res'))"
  unfolding rays_semantic_ignores_background
  by (auto simp: rays_semantic_def Let_def split: prod.splits sum.splits if_splits)

theorem rays_semantic_uncomposited_witness:
  "rays_semantic demo_ext demo_renderer Map.empty demo_rays 2
       ((bind_args demo_kwargs)\<lparr> bg_color := Some (BgScalar 5) \<rparr>)
     = Inr (demo_renderer,
            [''depth'' \<mapsto> Scalars [1, 2] [Fin (1 / 4), NaN],
             ''semantic'' \<mapsto> Classes [1, 2, 2] [[3 / 4, 0], [0, 0]]])
   \<and> semantic_accumulate demo_ext demo_renderer (rays_o demo_rays) (rays_d demo_rays) [2, 4] [6, 4] 2
         (bind_args demo_kwargs)
       = Inr (demo_renderer, [3 / 4, 0], [3, 0], [[3 / 4, 0], [0, 0]])
   \<and> rays_semantic demo_ext demo_trainer Map.empty demo_rays 2
       ((bind_args demo_kwargs)\<lparr> bg_color := Some (BgScalar 5) \<rparr>)
     = Inr (demo_trainer\<lparr> step_counter := (7, 2) # replicate 15 (0, 0), local_step := 1 \<rparr>,
            [''weights_sum_semantic'' \<mapsto> Scalars [2] [Fin (3 / 4), Fin 0],
             ''depth'' \<mapsto> Scalars [1, 2] [Fin (1 / 4), NaN],
             ''semantic'' \<mapsto> Classes [1, 2, 2] [[3 / 4, 0], [0, 0]]])"
proof -
  have acc: "semantic_accumulate demo_ext demo_renderer (rays_o demo_rays) (rays_d demo_rays)
         [2, 4] [6, 4] 2 (bind_args demo_kwargs)
       = Inr (demo_renderer, [3 / 4, 0], [3, 0], [[3 / 4, 0], [0, 0]])"
    by (simp add: semantic_accumulate_def demo_renderer_def demo_rays_def demo_kwargs_def
          bind_args_def demo_ext_def march_loop.simps march_round_def semantic_round_def
          demo_composite_def n_step_of_def Let_def upt_rec)
  from rays_semantic_uncomposited [OF demo_rays_semantic [of Map.empty]]
  have infer: "rays_semantic (demo_ext\<lparr> background := background demo_ext \<rparr>) demo_renderer
          Map.empty demo_rays 2 ((bind_args demo_kwargs)\<lparr> bg_color := Some (BgScalar 5) \<rparr>)
        = Inr (demo_renderer,
               [''depth'' \<mapsto> Scalars [1, 2] [Fin (1 / 4), NaN],
                ''semantic'' \<mapsto> Classes [1, 2, 2] [[3 / 4, 0], [0, 0]]])"
    by blast
  from rays_semantic_uncomposited [OF demo_rays_semantic_first [of Map.empty]]
  have train: "rays_semantic (demo_ext\<lparr> background := background demo_ext \<rparr>) demo_trainer
          Map.empty demo_rays 2 ((bind_args demo_kwargs)\<lparr> bg_color := Some (BgScalar 5) \<rparr>)
        = Inr (demo_trainer\<lparr> step_counter := (7, 2) # replicate 15 (0, 0), local_step := 1 \<rparr>,
            [''weights_sum_semantic'' \<mapsto> Scalars [2] [Fin (3 / 4), Fin 0],
             ''depth'' \<mapsto> Scalars [1, 2] [Fin (1 / 4), NaN],
             ''semantic'' \<mapsto> Classes [1, 2, 2] [[3 / 4, 0], [0, 0]]])"
    by blast
  from infer train show ?thesis
    using acc by simp
qed

text \<open>
  Claim C10. In \<^verbatim>\<open>run_cuda\<close> the RGB pass runs first and the semantic pass second, on
  one results dict, and both store \<^verbatim>\<open>depth\<close>. The depth returned is the normalised
  depth sum of the semantic pass; it is the same whatever dict the semantic pass is
  given, so the depth stored by the RGB pass is not observable. \<^verbatim>\<open>render\<close> returns
  these results whenever it does not take the staged path.
\<close>

theorem run_cuda_depth_is_semantic:
  "run_cuda E st rays K args = Inr (st', res) \<Longrightarrow>
     \<exists>st1 res1 ws d sem.
        rays_rgb E st Map.empty rays K args = Inr (st1, res1)
      \<and> semantic_accumulate E st1 (rays_o rays) (rays_d rays)
          (fst (pass_near_far E st1 rays)) (snd (pass_near_far E st1 rays)) K args
          = Inr (st', ws, d, sem)
      \<and> res ''depth'' = Some (Scalars [rb_B rays, rb_N rays]
            (normalize_depth d (fst (pass_near_far E st1 rays)) (snd (pass_near_far E st1 rays))
               (length (rays_o rays))))
      \<and> (\<forall>res0. \<exists>res2. rays_semantic E st1 res0 rays K args = Inr (st', res2)
                    \<and> res2 ''depth'' = res ''depth'')
      \<and> (\<forall>staged max_ray_batch kw.
            \<not> (staged \<and> \<not> cuda_ray st) \<and> args = bind_args kw \<longrightarrow>
              render E st rays K staged max_ray_batch kw = Inr (st', res))"
  by (auto simp: run_cuda_def render_def call_run_cuda_def rays_semantic_def Let_def
           split: prod.splits sum.splits if_splits)

text \<open>
  On the small scene the RGB pass stores the depth \<open>3 / 4\<close> for the first ray, and the
  depth returned is the semantic pass's \<open>1 / 4\<close>.
\<close>

theorem run_cuda_depth_is_semantic_witness:
  "run_cuda demo_ext demo_renderer demo_rays 2 (bind_args demo_kwargs)
     = Inr (demo_renderer, demo_results)
   \<and> (\<exists>res1. rays_rgb demo_ext demo_renderer Map.empty demo_rays 2 (bind_args demo_kwargs)
                = Inr (demo_renderer, res1)
            \<and> res1 ''depth'' = Some (Scalars [1, 2] [Fin (3 / 4), NaN]))
   \<and> demo_results ''depth'' = Some (Scalars [1, 2] [Fin (1 / 4), NaN])
   \<and> demo_results ''depth'' =
        Some (Scalars [1, 2] (normalize_depth [3, 0] [2, 4] [6, 4] 2))
   \<and> (\<exists>st' res. run_cuda demo_ext demo_trainer demo_rays 2 (bind_args demo_kwargs) = Inr (st', res)
            \<and> res ''depth'' = Some (Scalars [1, 2] [Fin (1 / 4), NaN]))"
  using run_cuda_depth_is_semantic [OF demo_run_cuda]
        run_cuda_depth_is_semantic [OF demo_run_cuda_train]
  by (simp add: demo_run_cuda demo_run_cuda_train demo_rays_rgb demo_results_def
        normalize_depth_def fdiv_def upt_rec)

section \<open>The staged path of the orchestrator\<close>

text \<open>
  The staged path is taken for \<^verbatim>\<open>staged\<close> on a renderer without \<^verbatim>\<open>cuda_ray\<close> only
  (line 522); with \<^verbatim>\<open>cuda_ray\<close> the flag changes nothing. Its first chunk raises: the
  call of line 532 does not pass \<^verbatim>\<open>semantic_class_length\<close>, which the unstaged call of
  line 544 does.
\<close>

lemma staged_row_raises:
  "head < int (rb_N rays) \<Longrightarrow> staged_row E kw rays max_ray_batch b head acc = Inl TypeError"
  by (cases acc) (simp add: staged_row.simps call_run_cuda_def Let_def)

lemma render_staged_raises:
  "staged \<Longrightarrow> \<not> cuda_ray st \<Longrightarrow> 0 < rb_B rays \<Longrightarrow> 0 < rb_N rays
     \<Longrightarrow> render E st rays K staged max_ray_batch kw = Inl TypeError"
  by (simp add: render_def Let_def upt_conv_Cons staged_row_raises)

lemma render_staged_returns_no_rays:
  "staged \<Longrightarrow> \<not> cuda_ray st \<Longrightarrow> render E st rays K staged max_ray_batch kw = Inr r
     \<Longrightarrow> rb_B rays = 0 \<or> rb_N rays = 0"
  using render_staged_raises [of staged st rays E K max_ray_batch kw] by auto

lemma render_cuda_ray_never_stages:
  "cuda_ray st \<Longrightarrow> render E st rays K True max_ray_batch kw = render E st rays K False max_ray_batch' kw"
  by (simp add: render_def Let_def)

text \<open>
  Claim C2 (the code fails it). Two rays, rendered with \<^verbatim>\<open>staged=True\<close> and
  \<^verbatim>\<open>max_ray_batch=1\<close>, so in two chunks, on a renderer without \<^verbatim>\<open>cuda_ray\<close>: the call
  raises \<^verbatim>\<open>TypeError\<close> and returns no outputs to compare with an unchunked call.
\<close>

theorem render_staged_type_error:
  "render demo_ext (demo_renderer\<lparr> cuda_ray := False \<rparr>) demo_rays 2 True 1 demo_kwargs
     = Inl TypeError"
  by (rule render_staged_raises) (simp_all add: demo_renderer_def demo_rays_def)

section \<open>The grid updater\<close>

lemma demo_query:
  "grid_size st = 2 \<Longrightarrow> bound st = 1 \<Longrightarrow> density_scale st = 1 \<Longrightarrow>
   query_sigmas demo_grid_ext st 0
      [(0, 0, 0), (0, 0, 1), (0, 1, 0), (0, 1, 1), (1, 0, 0), (1, 0, 1), (1, 1, 0), (1, 1, 1)]
    = [0, 0, 0, 0, 3, 3, 3, 3]"
  by (simp add: query_sigmas_def demo_grid_ext_def scale3_def Let_def)

lemma demo_sweep:
  "iter_density st < 16 \<Longrightarrow> density_grid st = [[a0, a1, a2, a3, a4, a5, a6, a7]] \<Longrightarrow>
   cascade st = 1 \<Longrightarrow> grid_size st = 2 \<Longrightarrow> bound st = 1 \<Longrightarrow> density_scale st = 1 \<Longrightarrow>
   sweep demo_grid_ext st 128 = Inr [[0, 3, 0, 3, 0, 3, 0, 3]]"
  using demo_query [of st]
  by (simp add: sweep_def full_sweep_def split_t.simps upt_rec assign_row_def broadcast_to_def
        Let_def demo_grid_ext_def)

lemma demo_pack:
  "packbits demo_grid_ext [[0, 3, - 1, 3, 0, g, 0, 3]] (Fin (1 / 100)) b
     = [if 1 / 100 < g then 170 else 138]"
  by (simp add: demo_grid_ext_def packbits_spec_def Let_def upt_rec)

lemma demo_update:
  "update_extra_state demo_grid_ext (19 / 20) 128 demo_renderer
     = Inr (demo_renderer\<lparr> density_grid := [[0, 3, - 1, 3, 0, 19 / 5, 0, 3]],
                            mean_density := Fin (8 / 5),
                            iter_density := 1,
                            density_bitfield := [170] \<rparr>)"
proof -
  have sw: "sweep demo_grid_ext demo_renderer 128 = Inr [[0, 3, 0, 3, 0, 3, 0, 3]]"
    by (rule demo_sweep) (simp_all add: demo_renderer_def)
  have ema: "ema_update (19 / 20) (density_grid demo_renderer) [[0, 3, 0, 3, 0, 3, 0, 3]]
               = [[0, 3, - 1, 3, 0, 19 / 5, 0, 3]]"
    by (simp add: ema_update_def ema_cell_def demo_renderer_def)
  have mean: "mean_clamped [[0, 3, - 1, 3, 0, 19 / 5, 0, 3]] = Fin (8 / 5)"
    by (simp add: mean_clamped_def fdiv_def)
  have th: "py_min (Fin (8 / 5)) (Fin (density_thresh demo_renderer)) = Fin (1 / 100)"
    by (simp add: py_min_def demo_renderer_def)
  show ?thesis
    unfolding update_extra_state_def sw
    by (simp add: Let_def ema mean th demo_pack) (simp add: demo_renderer_def)
qed




text \<open>The sweep writes into \<^verbatim>\<open>tmp_grid\<close> only: it keeps the grid's shape.\<close>

lemma demo_sweep_partial:
  "sweep demo_grid_ext demo_steady 128 = Inr [[0, 3, - 1, - 1, - 1, - 1, - 1, - 1]]"
  by code_simp

lemma demo_update_partial:
  "update_extra_state demo_grid_ext (19 / 20) 128 demo_steady
     = Inr (demo_steady\<lparr> iter_density := 17 \<rparr>)"
  by code_simp

text \<open>A partial update of a grid with no occupied cell raises.\<close>

lemma demo_sweep_no_occupied:
  "sweep demo_grid_ext
      (demo_renderer\<lparr> density_grid := [[0, 0, - 1, 0, 0, 0, 0, 0]], iter_density := 16 \<rparr>) 128
     = Inl RuntimeError"
  by code_simp

lemma index_put_length:
  "index_put row ixs vs = Inr row' \<Longrightarrow> length row' = length row"
  by (induction row ixs vs rule: index_put.induct) (auto split: if_splits)

lemma assign_row_shape:
  "assign_row tmp cas ixs vs = Inr tmp' \<Longrightarrow> map length tmp' = map length tmp"
  by (auto simp: assign_row_def map_update list_update_same_conv index_put_length
           split: if_splits sum.splits)

lemma sweep_cascades_shape:
  "sweep_cascades G st coords ixs cs tmp = Inr tmp' \<Longrightarrow> map length tmp' = map length tmp"
proof (induction cs arbitrary: tmp)
  case Nil
  then show ?case by simp
next
  case (Cons cas cs)
  then show ?case
    by (auto split: sum.splits dest!: assign_row_shape)
qed

lemma sweep_chunks_shape:
  "sweep_chunks G st chunks tmp = Inr tmp' \<Longrightarrow> map length tmp' = map length tmp"
proof (induction chunks arbitrary: tmp)
  case Nil
  then show ?case by simp
next
  case (Cons ch chunks)
  obtain xs ys zs where ch: "ch = (xs, ys, zs)" by (cases ch) auto
  from Cons show ?case
    unfolding ch by (auto simp: Let_def split: sum.splits dest!: sweep_cascades_shape)
qed

lemma partial_sweep_shape:
  "partial_sweep G st cs tmp = Inr tmp' \<Longrightarrow> map length tmp' = map length tmp"
proof (induction cs arbitrary: tmp)
  case Nil
  then show ?case by simp
next
  case (Cons cas cs)
  then show ?case
    by (auto simp: Let_def split: sum.splits if_splits dest!: assign_row_shape)
qed

lemma sweep_shape:
  "sweep G st S = Inr tmp_grid \<Longrightarrow> map length tmp_grid = map length (density_grid st)"
  by (auto simp: sweep_def full_sweep_def Let_def comp_def
           split: if_splits dest!: sweep_chunks_shape partial_sweep_shape)

lemma ema_update_shape:
  "map length tmp = map length grid \<Longrightarrow> map length (ema_update decay grid tmp) = map length grid"
proof (induction grid arbitrary: tmp)
  case Nil
  then show ?case by (simp add: ema_update_def)
next
  case (Cons row grid)
  then obtain trow tmp' where "tmp = trow # tmp'" by (cases tmp) auto
  with Cons show ?case by (simp add: ema_update_def)
qed

lemma ema_update_nth:
  assumes "map length tmp = map length grid" "c < length grid" "i < length (grid ! c)"
  shows "ema_update decay grid tmp ! c ! i = ema_cell decay (grid ! c ! i) (tmp ! c ! i)"
proof -
  have l: "length tmp = length grid"
    using assms(1) by (metis length_map)
  have "length (tmp ! c) = length (grid ! c)"
    using assms(1,2) l by (metis nth_map)
  then show ?thesis
    using assms l by (simp add: ema_update_def)
qed

text \<open>
  Claim C5. In a grid update, exactly the voxels whose stored estimate and freshly
  evaluated estimate are both valid (\<open>\<ge> 0\<close>) get the value
  \<open>max(old_value * decay, fresh_value)\<close>; every other voxel keeps its value. The fresh
  estimates are the \<^verbatim>\<open>tmp_grid\<close> of the sweep, \<open>-1\<close> where the sweep did not evaluate.
\<close>

theorem update_rule:
  "cuda_ray st \<Longrightarrow> update_extra_state G decay S st = Inr st' \<Longrightarrow>
     \<exists>tmp_grid.
        sweep G st S = Inr tmp_grid
      \<and> map length (density_grid st') = map length (density_grid st)
      \<and> (\<forall>c < length (density_grid st). \<forall>i < length (density_grid st ! c).
            density_grid st' ! c ! i =
              (if 0 \<le> density_grid st ! c ! i \<and> 0 \<le> tmp_grid ! c ! i
               then max (density_grid st ! c ! i * decay) (tmp_grid ! c ! i)
               else density_grid st ! c ! i))"
proof -
  assume c: "cuda_ray st" and u: "update_extra_state G decay S st = Inr st'"
  from c u obtain tmp_grid where sw: "sweep G st S = Inr tmp_grid"
    by (auto simp: update_extra_state_def split: sum.splits)
  from c u sw have g: "density_grid st' = ema_update decay (density_grid st) tmp_grid"
    by (auto simp: update_extra_state_def Let_def)
  have sh: "map length tmp_grid = map length (density_grid st)"
    using sw by (rule sweep_shape)
  show ?thesis
    using sw sh by (auto simp: g ema_update_shape ema_update_nth ema_cell_def)
qed

theorem update_rule_witness:
  "update_extra_state demo_grid_ext (19 / 20) 128 demo_renderer
     = Inr (demo_renderer\<lparr> density_grid := [[0, 3, - 1, 3, 0, 19 / 5, 0, 3]],
                            mean_density := Fin (8 / 5),
                            iter_density := 1,
                            density_bitfield := [170] \<rparr>)
   \<and> sweep demo_grid_ext demo_renderer 128 = Inr [[0, 3, 0, 3, 0, 3, 0, 3]]
   \<and> density_grid demo_renderer = [[0, 0, - 1, 0, 0, 4, 0, 0]]
   \<and> max (4 * (19 / 20)) 3 = (19 / 5 :: real)
   \<and> update_extra_state demo_grid_ext (19 / 20) 128 demo_steady
       = Inr (demo_steady\<lparr> iter_density := 17 \<rparr>)
   \<and> sweep demo_grid_ext demo_steady 128 = Inr [[0, 3, - 1, - 1, - 1, - 1, - 1, - 1]]
   \<and> density_grid demo_steady = [[0, 3, - 1, 3, 0, 4, 0, 3]]"
proof -
  have c: "cuda_ray demo_renderer" "cuda_ray demo_steady"
    by (simp_all add: demo_renderer_def demo_steady_def demo_updated_def)
  from update_rule [OF c(1) demo_update]
  obtain tmp_grid where "sweep demo_grid_ext demo_renderer 128 = Inr tmp_grid"
    by blast
  moreover from update_rule [OF c(2) demo_update_partial]
  obtain tmp_grid' where "sweep demo_grid_ext demo_steady 128 = Inr tmp_grid'"
    by blast
  moreover have "sweep demo_grid_ext demo_renderer 128 = Inr [[0, 3, 0, 3, 0, 3, 0, 3]]"
    by (rule demo_sweep) (simp_all add: demo_renderer_def)
  ultimately show ?thesis
    using demo_update demo_update_partial demo_sweep_partial
    by (simp add: demo_renderer_def demo_steady_def demo_updated_def)
qed

text \<open>
  Claim C6. A call of \<^verbatim>\<open>update_extra_state\<close> that returns leaves every cell that holds
  \<open>-1\<close> at \<open>-1\<close>. (A call that raises does so in the sweep, before the grid is written.)
\<close>

theorem update_keeps_unseen:
  "update_extra_state G decay S st = Inr st' \<Longrightarrow> c < length (density_grid st) \<Longrightarrow>
   i < length (density_grid st ! c) \<Longrightarrow> density_grid st ! c ! i = - 1 \<Longrightarrow>
     density_grid st' ! c ! i = - 1"
proof (cases "cuda_ray st")
  case True
  assume "update_extra_state G decay S st = Inr st'" "c < length (density_grid st)"
     "i < length (density_grid st ! c)" "density_grid st ! c ! i = - 1"
  with True show ?thesis
  proof -
    assume u: "update_extra_state G decay S st = Inr st'"
      and r: "c < length (density_grid st)" "i < length (density_grid st ! c)"
      and m: "density_grid st ! c ! i = - 1"
    from True u obtain tmp_grid where sw: "sweep G st S = Inr tmp_grid"
      by (auto simp: update_extra_state_def split: sum.splits)
    from True u sw have g: "density_grid st' = ema_update decay (density_grid st) tmp_grid"
      by (auto simp: update_extra_state_def Let_def)
    show ?thesis
      using r m sweep_shape [OF sw] by (simp add: g ema_update_nth ema_cell_def)
  qed
next
  case False
  assume "update_extra_state G decay S st = Inr st'" "density_grid st ! c ! i = - 1"
  with False show ?thesis
    by (simp add: update_extra_state_def)
qed

theorem update_keeps_unseen_witness:
  "density_grid demo_renderer ! 0 ! 2 = - 1
   \<and> (\<exists>st'. update_extra_state demo_grid_ext (19 / 20) 128 demo_renderer = Inr st'
            \<and> density_grid st' ! 0 ! 2 = - 1 \<and> density_grid st' ! 0 ! 1 = 3)"
  using update_keeps_unseen [OF demo_update, of 0 2]
  by (simp add: demo_update) (simp add: demo_renderer_def)














end
